theory Spec2Isabelle
  imports Complex_Main "HOL-Library.Monad_Syntax"
begin

section \<open>Shared types (src/shared/enhanced-types.ts)\<close>

text \<open>
  Optional fields (\<open>x?: T\<close>) are options, a \<open>Date\<close> is its epoch time in milliseconds, and
  a template literal is the list of its pieces, so that number formatting stays symbolic.
\<close>

subsection \<open>Numbers\<close>

text \<open>
  The numbers that the code adds or subtracts before it compares them (the allocation of
  a stage, a graduation rate, the three metrics of a forecast from which the variance is
  taken) are IEEE 754 binary64 values, the type \<open>number\<close>: a finite value, the two
  infinities, or NaN. \<open>Finite x\<close> is meant for an \<open>x\<close> that a double can hold; the two zeros
  are one value, which no operation used here tells apart. The other numbers of the
  code are reals, on which arithmetic is exact.

  \<open>rnd\<close> rounds a real to the nearest multiple of the spacing of the doubles around it,
  ties to the even multiple: with \<open>2 ^ e \<le> |x| < 2 ^ (e + 1)\<close> the spacing is
  \<open>2 ^ (e - 52)\<close>, and \<open>2 ^ - 1074\<close> in the subnormal range. A result of magnitude
  \<open>2 ^ 1024\<close> or more is an infinity.
\<close>

datatype number = Finite real | PosInf | NegInf | NaN

definition binade :: "real \<Rightarrow> int" where
  "binade x = \<lfloor>log 2 \<bar>x\<bar>\<rfloor>"

definition quantum :: "real \<Rightarrow> int" where
  "quantum x = max (binade x - 52) (- 1074)"

definition roundTiesToEven :: "real \<Rightarrow> int" where
  "roundTiesToEven y =
    (let f = \<lfloor>y\<rfloor>; d = y - of_int f in
      if d < 1 / 2 then f else if d > 1 / 2 then f + 1 else if even f then f else f + 1)"

definition rnd :: "real \<Rightarrow> real" where
  "rnd x =
    (if x = 0 then 0 else of_int (roundTiesToEven (x / 2 powi quantum x)) * 2 powi quantum x)"

definition round64 :: "real \<Rightarrow> number" where
  "round64 x =
    (let y = rnd x in
      if y \<ge> 2 ^ 1024 then PosInf else if y \<le> - (2 ^ 1024) then NegInf else Finite y)"

text \<open>A decimal literal of the source is the double nearest to it.\<close>

definition lit :: "real \<Rightarrow> number" where
  "lit x = round64 x"

text \<open>\<open>a + b\<close>, \<open>- a\<close>, \<open>a - b\<close>, \<open>a * b\<close> and \<open>Math.abs(a)\<close>.\<close>

fun numAdd :: "number \<Rightarrow> number \<Rightarrow> number" where
  "numAdd NaN b = NaN"
| "numAdd a NaN = NaN"
| "numAdd PosInf NegInf = NaN"
| "numAdd NegInf PosInf = NaN"
| "numAdd PosInf b = PosInf"
| "numAdd a PosInf = PosInf"
| "numAdd NegInf b = NegInf"
| "numAdd a NegInf = NegInf"
| "numAdd (Finite a) (Finite b) = round64 (a + b)"

fun numNeg :: "number \<Rightarrow> number" where
  "numNeg (Finite a) = Finite (- a)"
| "numNeg PosInf = NegInf"
| "numNeg NegInf = PosInf"
| "numNeg NaN = NaN"

definition numSub :: "number \<Rightarrow> number \<Rightarrow> number" where
  "numSub a b = numAdd a (numNeg b)"

fun numSign :: "number \<Rightarrow> int" where
  "numSign (Finite a) = (if a > 0 then 1 else if a < 0 then - 1 else 0)"
| "numSign PosInf = 1"
| "numSign NegInf = - 1"
| "numSign NaN = 0"

fun numMul :: "number \<Rightarrow> number \<Rightarrow> number" where
  "numMul (Finite a) (Finite b) = round64 (a * b)"
| "numMul a b =
    (if a = NaN \<or> b = NaN \<or> numSign a * numSign b = 0 then NaN
     else if numSign a * numSign b > 0 then PosInf else NegInf)"

fun mathAbs :: "number \<Rightarrow> number" where
  "mathAbs (Finite a) = Finite \<bar>a\<bar>"
| "mathAbs PosInf = PosInf"
| "mathAbs NegInf = PosInf"
| "mathAbs NaN = NaN"

text \<open>The comparisons \<open>a < b\<close>, \<open>a > b\<close> and \<open>a <= b\<close>: each is false when an operand is
  NaN.\<close>

fun numLt :: "number \<Rightarrow> number \<Rightarrow> bool" where
  "numLt NaN b = False"
| "numLt a NaN = False"
| "numLt (Finite a) (Finite b) = (a < b)"
| "numLt a NegInf = False"
| "numLt NegInf b = True"
| "numLt PosInf b = False"
| "numLt a PosInf = True"

definition numGt :: "number \<Rightarrow> number \<Rightarrow> bool" where
  "numGt a b = numLt b a"


text \<open>\<open>Math.max\<close> of two numbers, and of a list of them: NaN if one of them is, and
  \<open>-Infinity\<close> for no number at all.\<close>

fun max2 :: "number \<Rightarrow> number \<Rightarrow> number" where
  "max2 NaN b = NaN"
| "max2 a NaN = NaN"
| "max2 a b = (if numLt a b then b else a)"

definition mathMax :: "number list \<Rightarrow> number" where
  "mathMax xs = foldl max2 NegInf xs"

subsection \<open>The inputs of a fund\<close>

type_synonym Date = int

datatype FundStage = PreSeed | Seed | SeriesA | SeriesB | SeriesC | SeriesDPlus

fun stageName :: "FundStage \<Rightarrow> string" where
  "stageName PreSeed = ''Pre-Seed''"
| "stageName Seed = ''Seed''"
| "stageName SeriesA = ''Series A''"
| "stageName SeriesB = ''Series B''"
| "stageName SeriesC = ''Series C''"
| "stageName SeriesDPlus = ''Series D+''"

datatype ExitOutcome = Fail | Low | Med | High | Mega

record ExitMultiples =
  fail :: real
  low :: real
  med :: real
  high :: real
  mega :: real

record TargetReturns =
  low :: real
  target :: real
  high :: real

record StageStrategy =
  stage :: FundStage
  allocationPct :: number
  checkCount :: real
  avgInitialCheck :: real
  ownership :: real
  reserveRatio :: real
  targetReturns :: TargetReturns

text \<open>
  \<open>GraduationMatrix\<close>: an object from stage to an object from stage to rate. The validator
  walks it with \<open>Object.entries\<close> and \<open>Object.values\<close>, so it is kept as the list of its
  entries in insertion order.
\<close>

type_synonym GraduationMatrix = "(FundStage \<times> (FundStage \<times> number) list) list"

type_synonym ExitProbabilities = "FundStage \<rightharpoonup> (ExitOutcome \<Rightarrow> real)"

datatype FeeBasis = committed | invested | custom

record FeeProfile =
  managementFeeRate :: real
  managementFeeBasis :: FeeBasis
  carryRate :: real
  hurdleRate :: real
  catchUp :: bool
  catchUpRate :: real
  gpCommitment :: real
  organizationalExpenses :: real
  fundExpenses :: real
  annualExpensesCap :: "real option"

datatype RecyclingSource = management_fees | exits | both

record RecyclingProfile =
  enabled :: bool
  cap :: real
  periodYears :: real
  sources :: "RecyclingSource list"

record KeyPersonProvisions =
  enabled :: bool
  triggerPercent :: real

datatype Currency = USD | EUR | GBP

datatype WaterfallType = american | european

record EnhancedFundInputs =
  fundName :: string
  fundSize :: real
  currency :: Currency
  vintage :: real
  feeProfile :: FeeProfile
  stageStrategies :: "StageStrategy list"
  graduationMatrix :: GraduationMatrix
  exitProbabilityMatrix :: ExitProbabilities
  exitMultiples :: "FundStage \<rightharpoonup> ExitMultiples"
  investmentPeriodQuarters :: real
  fundLifeQuarters :: real
  extensionQuarters :: "real option"
  recycling :: "RecyclingProfile option"
  waterfallType :: WaterfallType
  lpClawback :: bool
  keyPersonProvisions :: "KeyPersonProvisions option"

text \<open>The pieces of a template literal: text, \<open>x.toFixed(d)\<close>, and \<open>${x}\<close> for a number.\<close>

datatype piece = S string | ToFixed number nat | Num number

type_synonym message = "piece list"

datatype Impact = impact_high | impact_medium | impact_low

record ValidationWarning =
  field :: string
  message :: message
  code :: string
  impact :: Impact

text \<open>The interface \<open>ValidationError\<close>; its field \<open>value\<close> is \<open>value_v\<close> here.\<close>

record ValidationError =
  field :: string
  message :: message
  code :: string
  value_v :: "number option"
  suggestion :: "string option"

section \<open>ValidationService (src/services/validation.service.ts)\<close>

definition digit :: "nat \<Rightarrow> char" where
  "digit n = char_of (48 + n)"

text \<open>The decimal digits of an array index, as \<open>${index}\<close> prints them.\<close>

function showNat :: "nat \<Rightarrow> string" where
  "showNat n = (if n < 10 then [digit n] else showNat (n div 10) @ [digit (n mod 10)])"
  by pat_completeness auto
termination
  by (relation "measure id") auto

declare showNat.simps [simp del]

definition validateStageStrategy :: "StageStrategy \<Rightarrow> nat \<Rightarrow> ValidationError list" where
  "validateStageStrategy strategy index =
    (let prefix = ''stageStrategies['' @ showNat index @ '']'' in
      (if numLt (allocationPct strategy) (Finite 0) \<or> numGt (allocationPct strategy) (Finite 1) then
         [\<lparr>field = prefix @ ''.allocationPct'',
           message = [S ''Allocation percentage must be between 0% and 100%''],
           code = ''INVALID_ALLOCATION_PCT'',
           value_v = Some (allocationPct strategy), suggestion = None\<rparr>]
       else [])
      @ (if checkCount strategy \<le> 0 \<or> checkCount strategy > 100 then
         [\<lparr>field = prefix @ ''.checkCount'',
           message = [S ''Check count must be between 1 and 100''],
           code = ''INVALID_CHECK_COUNT'',
           value_v = Some (Finite (checkCount strategy)), suggestion = None\<rparr>]
       else [])
      @ (if avgInitialCheck strategy \<le> 0 then
         [\<lparr>field = prefix @ ''.avgInitialCheck'',
           message = [S ''Average initial check must be positive''],
           code = ''INVALID_CHECK_SIZE'',
           value_v = Some (Finite (avgInitialCheck strategy)), suggestion = None\<rparr>]
       else [])
      @ (if ownership strategy < 0 \<or> ownership strategy > 0.5 then
         [\<lparr>field = prefix @ ''.ownership'',
           message = [S ''Ownership target must be between 0% and 50%''],
           code = ''INVALID_OWNERSHIP'',
           value_v = Some (Finite (ownership strategy)), suggestion = None\<rparr>]
       else [])
      @ (if reserveRatio strategy < 0 \<or> reserveRatio strategy > 3 then
         [\<lparr>field = prefix @ ''.reserveRatio'',
           message = [S ''Reserve ratio must be between 0 and 3''],
           code = ''INVALID_RESERVE_RATIO'',
           value_v = Some (Finite (reserveRatio strategy)), suggestion = None\<rparr>]
       else []))"

text \<open>\<open>feeProfile.hurdleRate && (...)\<close>: the range of the hurdle is checked only when it is
  truthy, that is, not zero.\<close>

definition validateFeeProfile :: "FeeProfile \<Rightarrow> ValidationError list" where
  "validateFeeProfile fp =
      (if managementFeeRate fp < 0 \<or> managementFeeRate fp > 0.05 then
         [\<lparr>field = ''feeProfile.managementFeeRate'',
           message = [S ''Management fee should be between 0% and 5%''],
           code = ''INVALID_MGMT_FEE'',
           value_v = Some (Finite (managementFeeRate fp)),
           suggestion = Some ''Typical management fees are 2-2.5%''\<rparr>]
       else [])
      @ (if carryRate fp < 0 \<or> carryRate fp > 0.30 then
         [\<lparr>field = ''feeProfile.carryRate'',
           message = [S ''Carry should be between 0% and 30%''],
           code = ''INVALID_CARRY'',
           value_v = Some (Finite (carryRate fp)),
           suggestion = Some ''Standard carry is 20%''\<rparr>]
       else [])
      @ (if hurdleRate fp \<noteq> 0 \<and> (hurdleRate fp < 0 \<or> hurdleRate fp > 0.15) then
         [\<lparr>field = ''feeProfile.hurdleRate'',
           message = [S ''Hurdle rate should be between 0% and 15%''],
           code = ''INVALID_HURDLE'',
           value_v = Some (Finite (hurdleRate fp)),
           suggestion = Some ''Typical hurdle rate is 8%''\<rparr>]
       else [])
      @ (if gpCommitment fp < 0 \<or> gpCommitment fp > 0.10 then
         [\<lparr>field = ''feeProfile.gpCommitment'',
           message = [S ''GP commitment should be between 0% and 10%''],
           code = ''INVALID_GP_COMMIT'',
           value_v = Some (Finite (gpCommitment fp)),
           suggestion = Some ''Standard GP commitment is 1-2%''\<rparr>]
       else [])"

text \<open>One pass of the \<open>forEach\<close> over \<open>Object.entries(matrix)\<close>: the rates of the row are
  summed from 0, left to right.\<close>

definition graduationTotal :: "(FundStage \<times> number) list \<Rightarrow> number" where
  "graduationTotal graduations =
    foldl (\<lambda>sum rate. numAdd sum rate) (Finite 0) (map snd graduations)"

definition validateGraduationRow ::
  "FundStage \<times> (FundStage \<times> number) list \<Rightarrow> ValidationError list" where
  "validateGraduationRow entry =
    (let fromStage = fst entry; total = graduationTotal (snd entry) in
      if numGt total (Finite 1.0) then
        [\<lparr>field = ''graduationMatrix.'' @ stageName fromStage,
          message = [S ''Graduation rates from '', S (stageName fromStage),
                     S '' exceed 100% ('', ToFixed (numMul total (Finite 100)) 1, S ''%)''],
          code = ''EXCESSIVE_GRADUATION'',
          value_v = Some total, suggestion = None\<rparr>]
      else [])"

definition validateGraduationMatrix :: "GraduationMatrix \<Rightarrow> ValidationError list" where
  "validateGraduationMatrix matrix = concat (map validateGraduationRow matrix)"

definition totalAllocation :: "StageStrategy list \<Rightarrow> number" where
  "totalAllocation strategies =
    foldl (\<lambda>sum s. numAdd sum (allocationPct s)) (Finite 0) strategies"

text \<open>
  \<open>validateFundInputs\<close> pushes onto one array in five blocks, each under its comment in
  the source; every block is a definition here and the function appends them in order.
  \<open>!inputs.fundSize\<close> holds of the number 0; an array is never falsy, so the first test
  of the stage strategies is on the length alone.
\<close>

definition fundSizeValidation :: "EnhancedFundInputs \<Rightarrow> ValidationError list" where
  "fundSizeValidation inputs =
      (if fundSize inputs = 0 \<or> fundSize inputs \<le> 0 then
         [\<lparr>field = ''fundSize'',
           message = [S ''Fund size must be positive''],
           code = ''INVALID_FUND_SIZE'',
           value_v = Some (Finite (fundSize inputs)), suggestion = None\<rparr>]
       else if fundSize inputs < 10000000 then
         [\<lparr>field = ''fundSize'',
           message = [S ''Fund size should be at least $10M for institutional viability''],
           code = ''FUND_SIZE_TOO_SMALL'',
           value_v = Some (Finite (fundSize inputs)),
           suggestion = Some ''Consider increasing fund size to at least $10M''\<rparr>]
       else if fundSize inputs > 10000000000 then
         [\<lparr>field = ''fundSize'',
           message = [S ''Fund size exceeds $10B maximum''],
           code = ''FUND_SIZE_TOO_LARGE'',
           value_v = Some (Finite (fundSize inputs)), suggestion = None\<rparr>]
       else [])"

definition stageAllocationValidation :: "EnhancedFundInputs \<Rightarrow> ValidationError list" where
  "stageAllocationValidation inputs =
      (if stageStrategies inputs = [] then
         [\<lparr>field = ''stageStrategies'',
           message = [S ''At least one stage strategy is required''],
           code = ''MISSING_STAGE_STRATEGIES'',
           value_v = None, suggestion = None\<rparr>]
       else
         (if numGt (mathAbs (numSub (totalAllocation (stageStrategies inputs)) (Finite 1.0)))
                  (lit 0.001) then
            [\<lparr>field = ''stageStrategies'',
              message = [S ''Stage allocations must sum to 100% (currently '',
                         ToFixed (numMul (totalAllocation (stageStrategies inputs)) (Finite 100)) 1, S ''%)''],
              code = ''INVALID_ALLOCATION_SUM'',
              value_v = Some (totalAllocation (stageStrategies inputs)),
              suggestion = Some ''Adjust allocations to sum to exactly 100%''\<rparr>]
          else [])
         @ concat (map (\<lambda>(strategy, index). validateStageStrategy strategy index)
                       (zip (stageStrategies inputs) [0..<length (stageStrategies inputs)])))"

definition timelineValidation :: "EnhancedFundInputs \<Rightarrow> ValidationError list" where
  "timelineValidation inputs =
      (if investmentPeriodQuarters inputs > fundLifeQuarters inputs then
         [\<lparr>field = ''investmentPeriodQuarters'',
           message = [S ''Investment period cannot exceed fund life''],
           code = ''INVALID_TIMELINE'',
           value_v = Some (Finite (investmentPeriodQuarters inputs)), suggestion = None\<rparr>]
       else [])
      @ (if fundLifeQuarters inputs > 60 then
         [\<lparr>field = ''fundLifeQuarters'',
           message = [S ''Fund life exceeds typical 15-year maximum''],
           code = ''EXCESSIVE_FUND_LIFE'',
           value_v = Some (Finite (fundLifeQuarters inputs)),
           suggestion = Some ''Consider reducing fund life to 10-12 years''\<rparr>]
       else [])"

definition validateFundInputs :: "EnhancedFundInputs \<Rightarrow> ValidationError list" where
  "validateFundInputs inputs =
      fundSizeValidation inputs
      @ stageAllocationValidation inputs
      @ validateFeeProfile (feeProfile inputs)
      @ validateGraduationMatrix (graduationMatrix inputs)
      @ timelineValidation inputs"

section \<open>Forecast results (src/shared/enhanced-types.ts)\<close>

record Investment =
  id :: string
  stage :: FundStage
  amount :: real
  quarter :: real
  date :: Date
  ownership :: real
  valuation :: real
  isFollowOn :: bool
  round :: string

datatype CompanyStatus = active | exited | written_off

record PortfolioCompany =
  id :: string
  name :: string
  entryStage :: FundStage
  currentStage :: FundStage
  investments :: "Investment list"
  totalInvested :: real
  currentValuation :: "real option"
  exitValue :: "real option"
  exitQuarter :: "real option"
  exitDate :: "Date option"
  status :: CompanyStatus
  sector :: "string option"
  geography :: "string option"
  foundedYear :: "real option"
  lastRoundDate :: "Date option"
  lastRoundValuation :: "real option"

record CashFlowPoint =
  quarter :: real
  year :: real
  yearQuarter :: string
  date :: Date
  contributions :: real
  distributions :: real
  managementFees :: real
  carriedInterest :: real
  netCashFlow :: real
  cumulativeContributions :: real
  cumulativeDistributions :: real
  cumulativeManagementFees :: real
  cumulativeCarriedInterest :: real
  nav :: real
  dpi :: real
  rvpi :: real
  tvpi :: real
  moic :: real
  netMoic :: real
  grossIrr :: real
  netIrr :: real
  activeCompanies :: real
  exitedCompanies :: real
  writtenOffCompanies :: real

record CompanyResult =
  companyId :: string
  companyName :: string
  entryStage :: FundStage
  exitStage :: "FundStage option"
  invested :: real
  exitProceeds :: real
  unrealizedValue :: real
  totalValue :: real
  realizedMultiple :: real
  totalMultiple :: real
  irr :: "real option"
  lpProceeds :: real
  gpCarry :: real
  holdingPeriod :: real
  exitQuarter :: "real option"

record WaterfallCalculation =
  dealId :: string
  invested :: real
  proceeds :: real
  lpCapitalReturn :: real
  lpPreferredReturn :: real
  lpCatchUp :: real
  lpProfitShare :: real
  lpTotal :: real
  gpCatchUp :: real
  gpCarry :: real
  gpTotal :: real
  hurdleAchieved :: bool
  effectiveCarryRate :: real

record WaterfallSummary =
  type :: WaterfallType
  totalInvested :: real
  totalProceeds :: real
  totalProfit :: real
  lpCapitalReturned :: real
  lpPreferredReturn :: real
  lpProfitDistribution :: real
  totalLpDistribution :: real
  gpManagementFees :: real
  gpCarriedInterest :: real
  gpCatchUp :: real
  totalGpCompensation :: real
  lpNetMultiple :: real
  lpNetIrr :: real
  effectiveCarryRate :: real
  dealWaterfalls :: "WaterfallCalculation list option"

datatype WarningType = data | calculation | assumption

datatype Severity = error | warning | info

record ForecastWarning =
  type :: WarningType
  severity :: Severity
  message :: string
  field :: "string option"
  suggestion :: "string option"

datatype Methodology = deterministic | monte_carlo

record MarketAssumptions =
  riskFreeRate :: real
  marketPremium :: real
  betaByStage :: "FundStage \<rightharpoonup> real"

record OperationalAssumptions =
  defaultFollowOnReserveRatio :: real
  defaultOwnershipTarget :: real
  defaultBoardSeatThreshold :: real

record CalculationParameters =
  irMaxIterations :: real
  irTolerance :: real
  navDiscountRate :: real

record ModelAssumptions =
  version :: string
  methodology :: Methodology
  randomSeed :: "real option"
  marketAssumptions :: MarketAssumptions
  operationalAssumptions :: OperationalAssumptions
  calculationParameters :: CalculationParameters

record ByStatus =
  active :: real
  exited :: real
  writtenOff :: real

record PortfolioComposition =
  byStage :: "FundStage \<rightharpoonup> real"
  byStatus :: ByStatus
  bySector :: "(string \<rightharpoonup> real) option"
  byGeography :: "(string \<rightharpoonup> real) option"

record RiskMetrics =
  jCurveDepth :: real
  timeToBreakeven :: real
  lossRatio :: real
  concentrationRisk :: real
  diversificationScore :: real

record ForecastResult =
  calculationId :: string
  calculationDate :: Date
  fundName :: string
  vintage :: real
  timeline :: "CashFlowPoint list"
  portfolio :: "PortfolioCompany list"
  companyResults :: "CompanyResult list"
  waterfallSummary :: WaterfallSummary
  totalInvested :: real
  totalRealized :: real
  totalUnrealized :: real
  totalValue :: number
  totalManagementFees :: real
  totalCarriedInterest :: real
  totalOrganizationalExpenses :: real
  totalFundExpenses :: real
  grossMoic :: real
  netMoic :: number
  grossIrr :: real
  netIrr :: number
  tvpi :: real
  dpi :: real
  rvpi :: real
  portfolioComposition :: PortfolioComposition
  riskMetrics :: RiskMetrics
  warnings :: "ForecastWarning list"
  assumptions :: ModelAssumptions

text \<open>
  What a \<open>throw\<close> carries. The class \<open>ValidationError\<close> (an \<open>Error\<close> with the list of
  validation errors) is the constructor \<open>ValidationFailure\<close>, since the interface of the
  same name is the record above; \<open>Error\<close> stands for every other instance of \<open>Error\<close>,
  \<open>NonError\<close> for a thrown value that is not one.
\<close>

datatype thrown =
    ValidationFailure string "ValidationError list"
  | Error string
  | NonError

section \<open>Warnings of the validation service\<close>

text \<open>\<open>Math.max(...inputs.stageStrategies.map(s => s.allocationPct))\<close>.\<close>

definition maxAllocation :: "StageStrategy list \<Rightarrow> number" where
  "maxAllocation strategies = mathMax (map allocationPct strategies)"

definition getWarnings :: "EnhancedFundInputs \<Rightarrow> ValidationWarning list" where
  "getWarnings inputs =
      concat (map (\<lambda>(strategy, index).
          if TargetReturns.high (targetReturns strategy) > 50 then
            [\<lparr>ValidationWarning.field =
                ''stageStrategies['' @ showNat index @ ''].targetReturns.high'',
              ValidationWarning.message =
                [S ''Very high target return ('', Num (Finite (TargetReturns.high (targetReturns strategy))),
                 S ''x) for '', S (stageName (StageStrategy.stage strategy))],
              ValidationWarning.code = ''AGGRESSIVE_RETURNS'',
              impact = impact_medium\<rparr>]
          else [])
        (zip (stageStrategies inputs) [0..<length (stageStrategies inputs)]))
      @ (if length (stageStrategies inputs) < 2 then
           [\<lparr>ValidationWarning.field = ''stageStrategies'',
             ValidationWarning.message = [S ''Limited stage diversification may increase risk''],
             ValidationWarning.code = ''LOW_DIVERSIFICATION'',
             impact = impact_high\<rparr>]
         else [])
      @ (if numGt (maxAllocation (stageStrategies inputs)) (lit 0.6) then
           [\<lparr>ValidationWarning.field = ''stageStrategies'',
             ValidationWarning.message =
               [S ''High concentration in single stage ('',
                ToFixed (numMul (maxAllocation (stageStrategies inputs)) (Finite 100)) 0,
                S ''%)''],
             ValidationWarning.code = ''HIGH_CONCENTRATION'',
             impact = impact_medium\<rparr>]
         else [])"

section \<open>Fund data defaults (src/context/fund-data.context.tsx)\<close>

record FundDataState =
  fundName :: string
  fundSize :: real
  vintage :: real
  currency :: Currency
  stageStrategies :: "StageStrategy list"
  graduationMatrix :: GraduationMatrix
  exitProbabilityMatrix :: ExitProbabilities
  feeProfile :: FeeProfile
  investmentPeriodQuarters :: real
  fundLifeQuarters :: real
  waterfallType :: WaterfallType
  recyclingEnabled :: bool
  recyclingCap :: real
  isDirty :: bool
  lastSavedAt :: "Date option"

definition outcomes :: "real \<Rightarrow> real \<Rightarrow> real \<Rightarrow> real \<Rightarrow> real \<Rightarrow> ExitOutcome \<Rightarrow> real" where
  "outcomes f l m h g outcome =
    (case outcome of Fail \<Rightarrow> f | Low \<Rightarrow> l | Med \<Rightarrow> m | High \<Rightarrow> h | Mega \<Rightarrow> g)"

text \<open>\<open>getDefaultState\<close>; the year of \<open>new Date()\<close> is the parameter.\<close>

definition getDefaultState :: "real \<Rightarrow> FundDataState" where
  "getDefaultState currentYear =
    \<lparr>FundDataState.fundName = ''New Fund'',
     FundDataState.fundSize = 100000000,
     FundDataState.vintage = currentYear,
     FundDataState.currency = USD,
     FundDataState.stageStrategies =
       [\<lparr>StageStrategy.stage = PreSeed, allocationPct = lit 0.15, checkCount = 20,
          avgInitialCheck = 500000, StageStrategy.ownership = 0.07, reserveRatio = 1.0,
          targetReturns = \<lparr>TargetReturns.low = 3, target = 10, TargetReturns.high = 50\<rparr>\<rparr>,
        \<lparr>StageStrategy.stage = Seed, allocationPct = lit 0.35, checkCount = 25,
          avgInitialCheck = 1500000, StageStrategy.ownership = 0.10, reserveRatio = 0.8,
          targetReturns = \<lparr>TargetReturns.low = 2.5, target = 8, TargetReturns.high = 30\<rparr>\<rparr>,
        \<lparr>StageStrategy.stage = SeriesA, allocationPct = lit 0.50, checkCount = 15,
          avgInitialCheck = 3000000, StageStrategy.ownership = 0.08, reserveRatio = 0.5,
          targetReturns = \<lparr>TargetReturns.low = 2, target = 5, TargetReturns.high = 15\<rparr>\<rparr>],
     FundDataState.graduationMatrix =
       [(PreSeed, [(Seed, lit 0.65)]),
        (Seed, [(SeriesA, lit 0.60)]),
        (SeriesA, [(SeriesB, lit 0.55)]),
        (SeriesB, [(SeriesC, lit 0.50)]),
        (SeriesC, [(SeriesDPlus, lit 0.45)])],
     FundDataState.exitProbabilityMatrix =
       [PreSeed \<mapsto> outcomes 0.90 0.06 0.02 0.01 0.01,
        Seed \<mapsto> outcomes 0.80 0.10 0.05 0.03 0.02,
        SeriesA \<mapsto> outcomes 0.65 0.15 0.10 0.07 0.03,
        SeriesB \<mapsto> outcomes 0.50 0.20 0.15 0.10 0.05,
        SeriesC \<mapsto> outcomes 0.35 0.25 0.20 0.15 0.05,
        SeriesDPlus \<mapsto> outcomes 0.10 0.20 0.30 0.25 0.15],
     FundDataState.feeProfile =
       \<lparr>managementFeeRate = 0.02, managementFeeBasis = committed, carryRate = 0.20,
        hurdleRate = 0.08, catchUp = True, catchUpRate = 1.0, gpCommitment = 0.02,
        organizationalExpenses = 500000, fundExpenses = 200000,
        annualExpensesCap = Some 100000\<rparr>,
     FundDataState.investmentPeriodQuarters = 20,
     FundDataState.fundLifeQuarters = 40,
     FundDataState.waterfallType = american,
     recyclingEnabled = False,
     recyclingCap = 0.15,
     isDirty = False,
     lastSavedAt = None\<rparr>"

definition getInputs :: "FundDataState \<Rightarrow> EnhancedFundInputs" where
  "getInputs state =
    \<lparr>EnhancedFundInputs.fundName = FundDataState.fundName state,
     EnhancedFundInputs.fundSize = FundDataState.fundSize state,
     EnhancedFundInputs.currency = FundDataState.currency state,
     EnhancedFundInputs.vintage = FundDataState.vintage state,
     EnhancedFundInputs.feeProfile = FundDataState.feeProfile state,
     EnhancedFundInputs.stageStrategies = FundDataState.stageStrategies state,
     EnhancedFundInputs.graduationMatrix = FundDataState.graduationMatrix state,
     EnhancedFundInputs.exitProbabilityMatrix = FundDataState.exitProbabilityMatrix state,
     exitMultiples =
       [PreSeed \<mapsto> \<lparr>fail = 0, ExitMultiples.low = 3, med = 10, ExitMultiples.high = 50, mega = 100\<rparr>,
        Seed \<mapsto> \<lparr>fail = 0, ExitMultiples.low = 2.5, med = 8, ExitMultiples.high = 30, mega = 75\<rparr>,
        SeriesA \<mapsto> \<lparr>fail = 0, ExitMultiples.low = 2, med = 5, ExitMultiples.high = 15, mega = 50\<rparr>,
        SeriesB \<mapsto> \<lparr>fail = 0, ExitMultiples.low = 1.5, med = 3, ExitMultiples.high = 10, mega = 30\<rparr>,
        SeriesC \<mapsto> \<lparr>fail = 0, ExitMultiples.low = 1.25, med = 2.5, ExitMultiples.high = 7, mega = 20\<rparr>,
        SeriesDPlus \<mapsto> \<lparr>fail = 0, ExitMultiples.low = 1, med = 2, ExitMultiples.high = 5, mega = 15\<rparr>],
     EnhancedFundInputs.investmentPeriodQuarters = FundDataState.investmentPeriodQuarters state,
     EnhancedFundInputs.fundLifeQuarters = FundDataState.fundLifeQuarters state,
     extensionQuarters = None,
     recycling =
       (if recyclingEnabled state then
          Some \<lparr>RecyclingProfile.enabled = True, cap = recyclingCap state, periodYears = 5,
                sources = [exits, management_fees]\<rparr>
        else None),
     EnhancedFundInputs.waterfallType = FundDataState.waterfallType state,
     lpClawback = True,
     keyPersonProvisions = None\<rparr>"

section \<open>The calculation context (src/context/fund-calculation.context.tsx)\<close>

text \<open>
  The state of \<open>FundCalculationProvider\<close>. The analytics record is never read by the
  functions below, so its type is a parameter.
\<close>

record 'a CalculationState =
  forecastResult :: "ForecastResult option"
  enhancedAnalytics :: "'a option"
  isCalculating :: bool
  lastCalculatedAt :: "Date option"
  calculationProgress :: real
  validationErrors :: "ValidationError list"

text \<open>
  \<open>buildEnhancedFundForecast\<close> is imported from \<open>../shared/enhanced-fund-model\<close>, which is
  not among the sources: it is the parameter \<open>build\<close>, a function that resolves to a
  forecast or rejects with what it threw.
\<close>

type_synonym forecaster = "EnhancedFundInputs \<Rightarrow> thrown + ForecastResult"

text \<open>One firing of the progress interval (every 100 ms while the forecast is awaited).\<close>

definition progressTick :: "'a CalculationState \<Rightarrow> 'a CalculationState" where
  "progressTick prev = prev\<lparr>calculationProgress := min (calculationProgress prev + 10) 90\<rparr>"

text \<open>
  \<open>calculateForecast\<close>. Besides the settled promise and the next state it returns the list
  of arguments with which \<open>buildEnhancedFundForecast\<close> was called, in order. \<open>ticks\<close> is
  the number of times the interval fired before the forecast settled, \<open>newDate\<close> the
  \<open>new Date()\<close> read on success.
\<close>

definition calculateForecast ::
  "forecaster \<Rightarrow> Date \<Rightarrow> nat \<Rightarrow> EnhancedFundInputs \<Rightarrow> 'a CalculationState \<Rightarrow>
   (thrown + ForecastResult) \<times> 'a CalculationState \<times> EnhancedFundInputs list" where
  "calculateForecast build newDate ticks inputs state =
    (let errors = validateFundInputs inputs in
      if length errors > 0 then
        (Inl (ValidationFailure ''Validation failed'' errors),
         state\<lparr>validationErrors := errors\<rparr>,
         [])
      else
        (let started = state\<lparr>isCalculating := True, calculationProgress := 0,
                              validationErrors := []\<rparr>;
             awaited = (progressTick ^^ ticks) started in
          case build inputs of
            Inr result \<Rightarrow>
              (Inr result,
               awaited\<lparr>forecastResult := Some result, isCalculating := False,
                       lastCalculatedAt := Some newDate, calculationProgress := 100\<rparr>,
               [inputs])
          | Inl err \<Rightarrow>
              (Inl err,
               awaited\<lparr>isCalculating := False, calculationProgress := 0\<rparr>,
               [inputs])))"

definition validateInputs ::
  "EnhancedFundInputs \<Rightarrow> 'a CalculationState \<Rightarrow> ValidationError list \<times> 'a CalculationState" where
  "validateInputs inputs state =
    (let errors = validateFundInputs inputs in (errors, state\<lparr>validationErrors := errors\<rparr>))"

section \<open>Scenarios (src/shared/enhanced-types.ts)\<close>

text \<open>\<open>Partial<FeeProfile>\<close>: every field may be absent.\<close>

record FeeAdjustments =
  managementFeeRate :: "real option"
  managementFeeBasis :: "FeeBasis option"
  carryRate :: "real option"
  hurdleRate :: "real option"
  catchUp :: "bool option"
  catchUpRate :: "real option"
  gpCommitment :: "real option"
  organizationalExpenses :: "real option"
  fundExpenses :: "real option"
  annualExpensesCap :: "real option"

record TimingAdjustments =
  deploymentAcceleration :: "real option"
  exitAcceleration :: "real option"

record ParameterOverrides =
  fundSize :: "real option"
  stageAllocations :: "(FundStage \<rightharpoonup> number) option"
  exitProbabilities :: "ExitProbabilities option"
  exitMultiples :: "(FundStage \<rightharpoonup> (ExitOutcome \<rightharpoonup> real)) option"
  feeAdjustments :: "FeeAdjustments option"
  timingAdjustments :: "TimingAdjustments option"

datatype Category = base | upside | downside | stress | custom

record ScenarioDefinition =
  id :: string
  name :: string
  description :: string
  category :: Category
  parameterOverrides :: ParameterOverrides
  weight :: "real option"
  isBaseline :: "bool option"

record VarianceFromBaseline =
  netMoic :: number
  netIrr :: number
  totalValue :: number

text \<open>\<open>ScenarioResult\<close>; its field \<open>definition\<close> is \<open>definition_s\<close> here.\<close>

record ScenarioResult =
  scenarioId :: string
  definition_s :: ScenarioDefinition
  result :: ForecastResult
  varianceFromBaseline :: "VarianceFromBaseline option"
  executionTime :: real
  warnings :: "string list"

section \<open>EnhancedBatchRunner (src/services/batch-runner.service.ts)\<close>

record EnhancedBatchRunner =
  scenarios :: "ScenarioDefinition list"
  baseInputs :: EnhancedFundInputs
  useWebWorkers :: bool
  maxWorkers :: nat

text \<open>The constructor with the field initialisers; \<open>navigator.hardwareConcurrency || 4\<close>
  takes 4 when the count is absent or 0.\<close>

definition newEnhancedBatchRunner :: "nat option \<Rightarrow> EnhancedFundInputs \<Rightarrow> EnhancedBatchRunner" where
  "newEnhancedBatchRunner hardwareConcurrency inputs =
    \<lparr>scenarios = [],
     baseInputs = inputs,
     useWebWorkers = True,
     maxWorkers = (case hardwareConcurrency of None \<Rightarrow> 4 | Some n \<Rightarrow> if n = 0 then 4 else n)\<rparr>"

definition addScenario :: "ScenarioDefinition \<Rightarrow> EnhancedBatchRunner \<Rightarrow> EnhancedBatchRunner" where
  "addScenario scenario runner = runner\<lparr>scenarios := scenarios runner @ [scenario]\<rparr>"

text \<open>\<open>Math.round\<close> rounds to the nearest integer, a half towards plus infinity.\<close>

definition mathRound :: "real \<Rightarrow> real" where
  "mathRound x = of_int \<lfloor>x + 1 / 2\<rfloor>"

text \<open>The object spread \<open>{ ...feeProfile, ...feeAdjustments }\<close>.\<close>

definition spreadFee :: "FeeProfile \<Rightarrow> FeeAdjustments \<Rightarrow> FeeProfile" where
  "spreadFee fp adj =
    \<lparr>FeeProfile.managementFeeRate =
       (case FeeAdjustments.managementFeeRate adj of Some v \<Rightarrow> v | None \<Rightarrow> FeeProfile.managementFeeRate fp),
     FeeProfile.managementFeeBasis =
       (case FeeAdjustments.managementFeeBasis adj of Some v \<Rightarrow> v | None \<Rightarrow> FeeProfile.managementFeeBasis fp),
     FeeProfile.carryRate =
       (case FeeAdjustments.carryRate adj of Some v \<Rightarrow> v | None \<Rightarrow> FeeProfile.carryRate fp),
     FeeProfile.hurdleRate =
       (case FeeAdjustments.hurdleRate adj of Some v \<Rightarrow> v | None \<Rightarrow> FeeProfile.hurdleRate fp),
     FeeProfile.catchUp =
       (case FeeAdjustments.catchUp adj of Some v \<Rightarrow> v | None \<Rightarrow> FeeProfile.catchUp fp),
     FeeProfile.catchUpRate =
       (case FeeAdjustments.catchUpRate adj of Some v \<Rightarrow> v | None \<Rightarrow> FeeProfile.catchUpRate fp),
     FeeProfile.gpCommitment =
       (case FeeAdjustments.gpCommitment adj of Some v \<Rightarrow> v | None \<Rightarrow> FeeProfile.gpCommitment fp),
     FeeProfile.organizationalExpenses =
       (case FeeAdjustments.organizationalExpenses adj of Some v \<Rightarrow> v
        | None \<Rightarrow> FeeProfile.organizationalExpenses fp),
     FeeProfile.fundExpenses =
       (case FeeAdjustments.fundExpenses adj of Some v \<Rightarrow> v | None \<Rightarrow> FeeProfile.fundExpenses fp),
     FeeProfile.annualExpensesCap =
       (case FeeAdjustments.annualExpensesCap adj of Some v \<Rightarrow> Some v
        | None \<Rightarrow> FeeProfile.annualExpensesCap fp)\<rparr>"

text \<open>
  \<open>applyScenarioOverrides\<close> on values: the copy \<open>modified\<close> goes through the five blocks of
  the source in order. A test such as \<open>if (overrides.stageAllocations)\<close> is on the
  presence of the object, \<open>if (deploymentAcceleration)\<close> on a number that is present and
  not 0; the block of \<open>exitAcceleration\<close> is empty in the source.
\<close>

definition applyScenarioOverrides :: "EnhancedFundInputs \<Rightarrow> ScenarioDefinition \<Rightarrow> EnhancedFundInputs" where
  "applyScenarioOverrides inputs scenario =
    (let overrides = parameterOverrides scenario;
         modified = inputs;
         modified = (case ParameterOverrides.fundSize overrides of
                       Some v \<Rightarrow> modified\<lparr>EnhancedFundInputs.fundSize := v\<rparr>
                     | None \<Rightarrow> modified);
         modified = (case stageAllocations overrides of
                       Some allocations \<Rightarrow>
                         modified\<lparr>EnhancedFundInputs.stageStrategies :=
                           map (\<lambda>strategy.
                                  case allocations (StageStrategy.stage strategy) of
                                    Some override \<Rightarrow> strategy\<lparr>allocationPct := override\<rparr>
                                  | None \<Rightarrow> strategy)
                               (EnhancedFundInputs.stageStrategies modified)\<rparr>
                     | None \<Rightarrow> modified);
         modified = (case exitProbabilities overrides of
                       Some probabilities \<Rightarrow>
                         modified\<lparr>EnhancedFundInputs.exitProbabilityMatrix :=
                           EnhancedFundInputs.exitProbabilityMatrix modified ++ probabilities\<rparr>
                     | None \<Rightarrow> modified);
         modified = (case feeAdjustments overrides of
                       Some adjustments \<Rightarrow>
                         modified\<lparr>EnhancedFundInputs.feeProfile :=
                           spreadFee (EnhancedFundInputs.feeProfile modified) adjustments\<rparr>
                     | None \<Rightarrow> modified);
         modified = (case timingAdjustments overrides of
                       Some timing \<Rightarrow>
                         (case deploymentAcceleration timing of
                            Some acceleration \<Rightarrow>
                              if acceleration \<noteq> 0 then
                                modified\<lparr>EnhancedFundInputs.investmentPeriodQuarters :=
                                  mathRound (EnhancedFundInputs.investmentPeriodQuarters modified
                                             * (1 - acceleration * 0.2))\<rparr>
                              else modified
                          | None \<Rightarrow> modified)
                     | None \<Rightarrow> modified)
     in modified)"

text \<open>
  What the runner reads from its environment: the successive readings of
  \<open>performance.now()\<close> (two for each scenario), and the \<open>new Date()\<close> of an error result
  with its year.
\<close>

record Environment =
  performanceNow :: "nat \<Rightarrow> real"
  newDate :: Date
  getFullYear :: real

text \<open>\<open>error instanceof Error ? error.message : fallback\<close>.\<close>

fun errorMessage :: "thrown \<Rightarrow> string \<Rightarrow> string" where
  "errorMessage (ValidationFailure m errors) fallback = m"
| "errorMessage (Error m) fallback = m"
| "errorMessage NonError fallback = fallback"

definition createErrorResult :: "Environment \<Rightarrow> thrown \<Rightarrow> ForecastResult" where
  "createErrorResult env err =
    \<lparr>calculationId = ''error'',
     calculationDate = newDate env,
     ForecastResult.fundName = ''Error'',
     ForecastResult.vintage = getFullYear env,
     timeline = [],
     portfolio = [],
     companyResults = [],
     waterfallSummary =
       \<lparr>WaterfallSummary.type = american,
        WaterfallSummary.totalInvested = 0,
        totalProceeds = 0,
        totalProfit = 0,
        lpCapitalReturned = 0,
        WaterfallSummary.lpPreferredReturn = 0,
        lpProfitDistribution = 0,
        totalLpDistribution = 0,
        gpManagementFees = 0,
        gpCarriedInterest = 0,
        WaterfallSummary.gpCatchUp = 0,
        totalGpCompensation = 0,
        lpNetMultiple = 0,
        lpNetIrr = 0,
        WaterfallSummary.effectiveCarryRate = 0,
        dealWaterfalls = None\<rparr>,
     ForecastResult.totalInvested = 0,
     totalRealized = 0,
     totalUnrealized = 0,
     ForecastResult.totalValue = Finite 0,
     totalManagementFees = 0,
     totalCarriedInterest = 0,
     totalOrganizationalExpenses = 0,
     totalFundExpenses = 0,
     grossMoic = 0,
     ForecastResult.netMoic = Finite 0,
     ForecastResult.grossIrr = 0,
     ForecastResult.netIrr = Finite 0,
     ForecastResult.tvpi = 0,
     ForecastResult.dpi = 0,
     ForecastResult.rvpi = 0,
     portfolioComposition =
       \<lparr>byStage = Map.empty,
        byStatus = \<lparr>ByStatus.active = 0, ByStatus.exited = 0, writtenOff = 0\<rparr>,
        bySector = None,
        byGeography = None\<rparr>,
     riskMetrics =
       \<lparr>jCurveDepth = 0, timeToBreakeven = 0, lossRatio = 0, concentrationRisk = 0,
        diversificationScore = 0\<rparr>,
     ForecastResult.warnings =
       [\<lparr>ForecastWarning.type = calculation,
         severity = error,
         ForecastWarning.message = errorMessage err ''Unknown error'',
         ForecastWarning.field = None,
         ForecastWarning.suggestion = None\<rparr>],
     assumptions =
       \<lparr>version = ''1.0.0'',
        methodology = deterministic,
        randomSeed = None,
        marketAssumptions =
          \<lparr>riskFreeRate = 0.04, marketPremium = 0.08, betaByStage = Map.empty\<rparr>,
        operationalAssumptions =
          \<lparr>defaultFollowOnReserveRatio = 0.5, defaultOwnershipTarget = 0.1,
           defaultBoardSeatThreshold = 0.1\<rparr>,
        calculationParameters =
          \<lparr>irMaxIterations = 100, irTolerance = 0.000001, navDiscountRate = 0.1\<rparr>\<rparr>\<rparr>"

text \<open>
  The body of the \<open>for\<close> loop for the scenario that is \<open>k\<close>-th in the list (from 0): the
  \<open>try\<close> pushes the forecast, the \<open>catch\<close> pushes the error result with the message as
  the one warning.
\<close>

definition runScenario ::
  "forecaster \<Rightarrow> Environment \<Rightarrow> EnhancedFundInputs \<Rightarrow> nat \<Rightarrow> ScenarioDefinition \<Rightarrow> ScenarioResult" where
  "runScenario build env inputs k scenario =
    (let startTime = performanceNow env (2 * k);
         modifiedInputs = applyScenarioOverrides inputs scenario in
      case build modifiedInputs of
        Inr forecast \<Rightarrow>
          \<lparr>scenarioId = ScenarioDefinition.id scenario,
           definition_s = scenario,
           result = forecast,
           varianceFromBaseline = None,
           executionTime = performanceNow env (2 * k + 1) - startTime,
           ScenarioResult.warnings = []\<rparr>
      | Inl err \<Rightarrow>
          \<lparr>scenarioId = ScenarioDefinition.id scenario,
           definition_s = scenario,
           result = createErrorResult env err,
           varianceFromBaseline = None,
           executionTime = performanceNow env (2 * k + 1) - startTime,
           ScenarioResult.warnings = [errorMessage err ''Calculation failed'']\<rparr>)"

text \<open>
  The loop, from \<open>completed\<close> scenarios done: it returns the results pushed and the values
  passed to \<open>onProgress\<close>, both in order; \<open>onProgress\<close> says whether the callback was
  given.
\<close>

fun runLoop ::
  "forecaster \<Rightarrow> Environment \<Rightarrow> EnhancedFundInputs \<Rightarrow> nat \<Rightarrow> bool \<Rightarrow> nat \<Rightarrow>
   ScenarioDefinition list \<Rightarrow> ScenarioResult list \<times> real list" where
  "runLoop build env inputs totalScenarios onProgress completed [] = ([], [])"
| "runLoop build env inputs totalScenarios onProgress completed (scenario # rest) =
    (let pushed = runScenario build env inputs completed scenario;
         completed = completed + 1;
         reported = (if onProgress then [(real completed / real totalScenarios) * 100] else []);
         (results, reports) = runLoop build env inputs totalScenarios onProgress completed rest
     in (pushed # results, reported @ reports))"

text \<open>The truthiness of \<open>definition.isBaseline\<close>.\<close>

definition flaggedBaseline :: "ScenarioResult \<Rightarrow> bool" where
  "flaggedBaseline r \<longleftrightarrow> isBaseline (definition_s r) = Some True"

definition varianceFrom :: "ScenarioResult \<Rightarrow> ScenarioResult \<Rightarrow> VarianceFromBaseline" where
  "varianceFrom baseline r =
    \<lparr>netMoic = numSub (ForecastResult.netMoic (result r)) (ForecastResult.netMoic (result baseline)),
     netIrr = numSub (ForecastResult.netIrr (result r)) (ForecastResult.netIrr (result baseline)),
     totalValue =
       numSub (ForecastResult.totalValue (result r)) (ForecastResult.totalValue (result baseline))\<rparr>"

definition calculateVariance :: "ScenarioResult list \<Rightarrow> ScenarioResult list" where
  "calculateVariance results =
    (case List.find flaggedBaseline results of
       Some baseline \<Rightarrow>
         map (\<lambda>r. if scenarioId r \<noteq> scenarioId baseline
                   then r\<lparr>varianceFromBaseline := Some (varianceFrom baseline r)\<rparr>
                   else r)
             results
     | None \<Rightarrow> results)"

text \<open>The \<open>RangeError\<close> of a call for which the stack has no room.\<close>

definition stackOverflow :: thrown where
  "stackOverflow = Error ''Maximum call stack size exceeded''"

text \<open>What \<open>run\<close> does below its first \<open>if\<close>: the loop over the scenarios, then the
  variance from the baseline.\<close>

definition runSequential ::
  "forecaster \<Rightarrow> Environment \<Rightarrow> EnhancedBatchRunner \<Rightarrow> bool \<Rightarrow>
   (thrown + ScenarioResult list) \<times> real list" where
  "runSequential build env runner onProgress =
    (let (results, reports) =
           runLoop build env (baseInputs runner) (length (scenarios runner)) onProgress 0
             (scenarios runner)
     in (Inr (calculateVariance results), reports))"

text \<open>
  \<open>run\<close> and \<open>runWithWebWorkers\<close> call each other, with no \<open>await\<close> before the call. The
  first argument is the number of calls the stack still has room for; a call beyond it
  throws, which rejects the promise of every caller. The result is the settled promise
  with the values passed to \<open>onProgress\<close> on the way.
\<close>

fun run ::
    "nat \<Rightarrow> forecaster \<Rightarrow> Environment \<Rightarrow> EnhancedBatchRunner \<Rightarrow> bool \<Rightarrow>
     (thrown + ScenarioResult list) \<times> real list"
  and runWithWebWorkers ::
    "nat \<Rightarrow> forecaster \<Rightarrow> Environment \<Rightarrow> EnhancedBatchRunner \<Rightarrow> bool \<Rightarrow>
     (thrown + ScenarioResult list) \<times> real list" where
  "run 0 build env runner onProgress = (Inl stackOverflow, [])"
| "run (Suc room) build env runner onProgress =
    (let totalScenarios = length (scenarios runner) in
      if useWebWorkers runner \<and> totalScenarios > 5 then
        runWithWebWorkers room build env runner onProgress
      else runSequential build env runner onProgress)"
| "runWithWebWorkers 0 build env runner onProgress = (Inl stackOverflow, [])"
| "runWithWebWorkers (Suc room) build env runner onProgress =
    run room build env runner onProgress"

text \<open>The value a promise resolved with, if it did.\<close>

definition resolved :: "(thrown + 'a) \<times> real list \<Rightarrow> 'a option" where
  "resolved settled = (case fst settled of Inr x \<Rightarrow> Some x | Inl err \<Rightarrow> None)"

definition varianceRecords :: "ScenarioResult list \<Rightarrow> VarianceFromBaseline list" where
  "varianceRecords results = List.map_filter varianceFromBaseline results"

section \<open>The single-file application (second document of src/split-context-architecture.ts)\<close>

text \<open>
  This document declares its own \<open>StageStrategy\<close>, \<open>ForecastResult\<close>,
  \<open>EnhancedAnalytics\<close> and \<open>ValidationError\<close>; they carry the prefix \<open>App\<close> here, and
  its \<open>calculateForecast\<close> and \<open>validateInputs\<close> the prefix \<open>app\<close>.
\<close>

record AppStageStrategy =
  stage :: string
  allocationPct :: number
  checkCount :: real
  avgInitialCheck :: real
  ownership :: real
  reserveRatio :: real
  targetReturns :: "TargetReturns option"

record TimelinePoint =
  quarter :: real
  nav :: real
  dpi :: real
  tvpi :: real
  deployed :: real

record AppForecastResult =
  grossMoic :: real
  netMoic :: real
  grossIrr :: real
  netIrr :: real
  tvpi :: real
  dpi :: real
  rvpi :: real
  totalInvested :: real
  totalValue :: real
  timeline :: "TimelinePoint list"

datatype RiskLevel = risk_low | risk_medium | risk_high

record AppReserveAnalysis =
  totalReserveNeeded :: real
  currentReserveAllocated :: real
  sufficiencyRatio :: real
  riskLevel :: RiskLevel

record AppPacingAnalysis =
  currentPace :: real
  targetPace :: real
  deviationPercent :: real
  isOnTrack :: bool

record AppMoicAnalysis =
  currentMOIC :: real
  expectedMOIC :: real
  initialMOIC :: real
  followOnMOIC :: real
  blendedMOIC :: real
  lpMOIC :: real
  gpMOIC :: real

record AppConcentration =
  herfindahlIndex :: real
  top5ShareOfNAV :: real
  diversificationScore :: real

record AppEnhancedAnalytics =
  reserveAnalysis :: AppReserveAnalysis
  pacingAnalysis :: AppPacingAnalysis
  moicAnalysis :: AppMoicAnalysis
  concentration :: AppConcentration

record AppValidationError =
  field :: string
  message :: message
  severity :: Severity

record AppState =
  fundName :: string
  fundSize :: real
  managementFeeRate :: real
  carryPct :: real
  investmentPeriodYears :: real
  fundLifeYears :: real
  stageStrategies :: "AppStageStrategy list"
  forecastResult :: "AppForecastResult option"
  enhancedAnalytics :: "AppEnhancedAnalytics option"
  isCalculating :: bool
  validationErrors :: "AppValidationError list"

text \<open>The actions of \<open>fundReducer\<close>, but for \<open>UPDATE_STAGE_STRATEGY\<close>, which no function
  below dispatches.\<close>

datatype AppAction =
    SET_FUND_NAME string
  | SET_FUND_SIZE real
  | ADD_STAGE_STRATEGY AppStageStrategy
  | REMOVE_STAGE_STRATEGY nat
  | SET_FORECAST_RESULT AppForecastResult
  | SET_ANALYTICS AppEnhancedAnalytics
  | SET_CALCULATING bool
  | SET_VALIDATION_ERRORS "AppValidationError list"

fun fundReducer :: "AppState \<Rightarrow> AppAction \<Rightarrow> AppState" where
  "fundReducer state (SET_FUND_NAME payload) = state\<lparr>AppState.fundName := payload\<rparr>"
| "fundReducer state (SET_FUND_SIZE payload) = state\<lparr>AppState.fundSize := payload\<rparr>"
| "fundReducer state (ADD_STAGE_STRATEGY payload) =
    state\<lparr>AppState.stageStrategies := AppState.stageStrategies state @ [payload]\<rparr>"
| "fundReducer state (REMOVE_STAGE_STRATEGY payload) =
    state\<lparr>AppState.stageStrategies :=
      map fst (filter (\<lambda>(strategy, i). i \<noteq> payload)
        (zip (AppState.stageStrategies state) [0..<length (AppState.stageStrategies state)]))\<rparr>"
| "fundReducer state (SET_FORECAST_RESULT payload) =
    state\<lparr>AppState.forecastResult := Some payload\<rparr>"
| "fundReducer state (SET_ANALYTICS payload) =
    state\<lparr>AppState.enhancedAnalytics := Some payload\<rparr>"
| "fundReducer state (SET_CALCULATING payload) = state\<lparr>AppState.isCalculating := payload\<rparr>"
| "fundReducer state (SET_VALIDATION_ERRORS payload) =
    state\<lparr>AppState.validationErrors := payload\<rparr>"

definition initialState :: AppState where
  "initialState =
    \<lparr>AppState.fundName = ''Sample Fund I'',
     AppState.fundSize = 100000000,
     AppState.managementFeeRate = 2.0,
     carryPct = 20,
     investmentPeriodYears = 5,
     fundLifeYears = 10,
     AppState.stageStrategies =
       [\<lparr>AppStageStrategy.stage = ''Pre-Seed'', AppStageStrategy.allocationPct = lit 0.2,
          AppStageStrategy.checkCount = 20, AppStageStrategy.avgInitialCheck = 500000,
          AppStageStrategy.ownership = 0.08, AppStageStrategy.reserveRatio = 0.5,
          AppStageStrategy.targetReturns =
            Some \<lparr>TargetReturns.low = 3, target = 10, TargetReturns.high = 30\<rparr>\<rparr>,
        \<lparr>AppStageStrategy.stage = ''Seed'', AppStageStrategy.allocationPct = lit 0.5,
          AppStageStrategy.checkCount = 25, AppStageStrategy.avgInitialCheck = 1500000,
          AppStageStrategy.ownership = 0.10, AppStageStrategy.reserveRatio = 0.5,
          AppStageStrategy.targetReturns =
            Some \<lparr>TargetReturns.low = 2.5, target = 8, TargetReturns.high = 25\<rparr>\<rparr>,
        \<lparr>AppStageStrategy.stage = ''Series A'', AppStageStrategy.allocationPct = lit 0.3,
          AppStageStrategy.checkCount = 10, AppStageStrategy.avgInitialCheck = 3000000,
          AppStageStrategy.ownership = 0.12, AppStageStrategy.reserveRatio = 0.4,
          AppStageStrategy.targetReturns =
            Some \<lparr>TargetReturns.low = 2, target = 5, TargetReturns.high = 15\<rparr>\<rparr>],
     AppState.forecastResult = None,
     AppState.enhancedAnalytics = None,
     AppState.isCalculating = False,
     AppState.validationErrors = []\<rparr>"

text \<open>
  The element of the timeline at index \<open>i\<close>. \<open>Math.random()\<close> is called once for each
  element, in the order of the indices: \<open>random i\<close> is the value of the call for index
  \<open>i\<close>.
\<close>

definition timelinePoint :: "(nat \<Rightarrow> real) \<Rightarrow> AppState \<Rightarrow> nat \<Rightarrow> TimelinePoint" where
  "timelinePoint random state i =
    \<lparr>TimelinePoint.quarter = real i + 1,
     nav = max 0 (AppState.fundSize state * (1 - exp (- real i / 10) + random i * 0.3)),
     TimelinePoint.dpi = min 1.5 (real i * 0.04),
     TimelinePoint.tvpi = min 3 (1 + real i * 0.05),
     deployed = min (AppState.fundSize state * 0.85)
                    (AppState.fundSize state * 0.85 * (1 - exp (- real i / 8)))\<rparr>"

definition mockResult :: "(nat \<Rightarrow> real) \<Rightarrow> AppState \<Rightarrow> AppForecastResult" where
  "mockResult random state =
    \<lparr>AppForecastResult.grossMoic = 3.2,
     AppForecastResult.netMoic = 2.5,
     AppForecastResult.grossIrr = 0.28,
     AppForecastResult.netIrr = 0.22,
     AppForecastResult.tvpi = 2.8,
     AppForecastResult.dpi = 0.9,
     AppForecastResult.rvpi = 1.9,
     AppForecastResult.totalInvested = AppState.fundSize state * 0.85,
     AppForecastResult.totalValue = AppState.fundSize state * 2.5,
     AppForecastResult.timeline = map (timelinePoint random state) [0..<40]\<rparr>"

definition mockAnalytics :: "AppState \<Rightarrow> AppEnhancedAnalytics" where
  "mockAnalytics state =
    \<lparr>reserveAnalysis =
       \<lparr>totalReserveNeeded = AppState.fundSize state * 0.45,
        currentReserveAllocated = AppState.fundSize state * 0.42,
        sufficiencyRatio = 0.93,
        riskLevel = risk_medium\<rparr>,
     pacingAnalysis =
       \<lparr>currentPace = 0.82, targetPace = 0.85, deviationPercent = - 3.5, isOnTrack = True\<rparr>,
     moicAnalysis =
       \<lparr>currentMOIC = 1.8, expectedMOIC = 2.5, initialMOIC = 2.8, followOnMOIC = 2.2,
        blendedMOIC = 2.5, lpMOIC = 2.2, gpMOIC = 3.8\<rparr>,
     concentration =
       \<lparr>herfindahlIndex = 0.15, top5ShareOfNAV = 0.45,
        AppConcentration.diversificationScore = 0.85\<rparr>\<rparr>"

text \<open>
  \<open>FundProvider.calculateForecast\<close>: the four dispatches in order, from the state the
  callback closed over. It takes no argument: the configuration is that state.
\<close>

definition appCalculateForecast :: "(nat \<Rightarrow> real) \<Rightarrow> AppState \<Rightarrow> AppState" where
  "appCalculateForecast random state =
    foldl fundReducer state
      [SET_CALCULATING True,
       SET_FORECAST_RESULT (mockResult random state),
       SET_ANALYTICS (mockAnalytics state),
       SET_CALCULATING False]"

text \<open>\<open>FundProvider.validateInputs\<close>: it returns the errors and dispatches them.\<close>

definition appTotalAllocation :: "AppStageStrategy list \<Rightarrow> number" where
  "appTotalAllocation strategies =
    foldl (\<lambda>sum s. numAdd sum (AppStageStrategy.allocationPct s)) (Finite 0) strategies"

definition appValidateInputs :: "AppState \<Rightarrow> AppValidationError list \<times> AppState" where
  "appValidateInputs state =
    (let errors =
           (if AppState.fundSize state < 10000000 then
              [\<lparr>AppValidationError.field = ''fundSize'',
                AppValidationError.message =
                  [S ''Fund size should be at least $10M for institutional viability''],
                AppValidationError.severity = warning\<rparr>]
            else [])
           @ (if numGt (mathAbs (numSub (appTotalAllocation (AppState.stageStrategies state))
                                        (Finite 1.0)))
                       (lit 0.001) then
              [\<lparr>AppValidationError.field = ''stageStrategies'',
                AppValidationError.message =
                  [S ''Stage allocations must sum to 100% (currently '',
                   ToFixed (numMul (appTotalAllocation (AppState.stageStrategies state)) (Finite 100)) 1,
                   S ''%)''],
                AppValidationError.severity = error\<rparr>]
            else [])
     in (errors, fundReducer state (SET_VALIDATION_ERRORS errors)))"

section \<open>applyScenarioOverrides on a store of objects\<close>

text \<open>
  For what \<open>applyScenarioOverrides\<close> writes and what it shares, objects live in a store
  and a configuration holds references. The store is the list of the objects allocated so
  far, a reference is an index into it, and an allocation appends. The objects that the
  function can reach are separate objects of the store; what lies deeper (the target
  returns of a strategy, the rows of the graduation matrix, the exit multiples of a stage)
  stays inside its parent.
\<close>

type_synonym ref = nat

record InputsObject =
  fundName :: string
  fundSize :: real
  currency :: Currency
  vintage :: real
  feeProfile :: ref
  stageStrategies :: ref
  graduationMatrix :: ref
  exitProbabilityMatrix :: ref
  exitMultiples :: ref
  investmentPeriodQuarters :: real
  fundLifeQuarters :: real
  extensionQuarters :: "real option"
  recycling :: "ref option"
  waterfallType :: WaterfallType
  lpClawback :: bool
  keyPersonProvisions :: "ref option"

datatype object =
    Inputs InputsObject
  | Array "ref list"
  | Strategy StageStrategy
  | Fee FeeProfile
  | Matrix "FundStage \<rightharpoonup> ref"
  | Probabilities "ExitOutcome \<Rightarrow> real"
  | Graduation GraduationMatrix
  | Multiples "FundStage \<rightharpoonup> ExitMultiples"
  | Recycling RecyclingProfile
  | KeyPerson KeyPersonProvisions

type_synonym store = "object list"





text \<open>The overrides of a scenario as the store sees them: the exit probabilities of a
  stage are objects, the rest are numbers and records of numbers.\<close>

record StoredOverrides =
  fundSize :: "real option"
  stageAllocations :: "(FundStage \<rightharpoonup> number) option"
  exitProbabilities :: "(FundStage \<rightharpoonup> ref) option"
  feeAdjustments :: "FeeAdjustments option"
  timingAdjustments :: "TimingAdjustments option"











text \<open>What holds of the store between the blocks of \<open>applyScenarioOverrides\<close>: the
  objects of the store before the call are in their places, and the copy is at the first
  reference after them.\<close>

definition between :: "store \<Rightarrow> store \<Rightarrow> bool" where
  "between h hk \<longleftrightarrow> length h < length hk \<and> take (length h) hk = h"
























section \<open>Concrete inputs\<close>

text \<open>The default configuration of the fund data context, and three variants of it.\<close>

definition defaultInputs :: EnhancedFundInputs where
  "defaultInputs = getInputs (getDefaultState 2025)"

definition negativeFund :: EnhancedFundInputs where
  "negativeFund = defaultInputs\<lparr>EnhancedFundInputs.fundSize := - 1\<rparr>"

definition fiveMillionFund :: EnhancedFundInputs where
  "fiveMillionFund = defaultInputs\<lparr>EnhancedFundInputs.fundSize := 5000000\<rparr>"

definition sixtyOneQuarterFund :: EnhancedFundInputs where
  "sixtyOneQuarterFund = defaultInputs\<lparr>EnhancedFundInputs.fundLifeQuarters := 61\<rparr>"

text \<open>The default configuration with other allocations, one strategy for each, and with
  one row in its graduation matrix.\<close>

definition exampleStrategy :: "number \<Rightarrow> StageStrategy" where
  "exampleStrategy allocation =
    \<lparr>StageStrategy.stage = Seed, StageStrategy.allocationPct = allocation,
     StageStrategy.checkCount = 25, StageStrategy.avgInitialCheck = 1500000,
     StageStrategy.ownership = 0.10, StageStrategy.reserveRatio = 0.8,
     StageStrategy.targetReturns =
       \<lparr>TargetReturns.low = 2.5, target = 8, TargetReturns.high = 30\<rparr>\<rparr>"

definition withAllocations :: "number list \<Rightarrow> EnhancedFundInputs" where
  "withAllocations allocations =
    defaultInputs\<lparr>EnhancedFundInputs.stageStrategies := map exampleStrategy allocations\<rparr>"

definition withGraduations :: "(FundStage \<times> number) list \<Rightarrow> EnhancedFundInputs" where
  "withGraduations graduations =
    defaultInputs\<lparr>EnhancedFundInputs.graduationMatrix := [(PreSeed, graduations)]\<rparr>"

text \<open>The state that \<open>FundCalculationProvider\<close> starts from.\<close>

definition initialCalculationState :: "unit CalculationState" where
  "initialCalculationState =
    \<lparr>CalculationState.forecastResult = None,
     CalculationState.enhancedAnalytics = None,
     CalculationState.isCalculating = False,
     lastCalculatedAt = None,
     calculationProgress = 0,
     CalculationState.validationErrors = []\<rparr>"

definition exampleEnvironment :: Environment where
  "exampleEnvironment = \<lparr>performanceNow = real, newDate = 0, getFullYear = 2025\<rparr>"

text \<open>Two forecasters to run the callers with: one that always throws, and one whose
  forecast has the fund size as its total value.\<close>

definition failingForecast :: forecaster where
  "failingForecast inputs = Inl (Error ''forecast failed'')"

definition sizeForecast :: forecaster where
  "sizeForecast inputs =
    Inr ((createErrorResult exampleEnvironment NonError)
           \<lparr>ForecastResult.totalValue := Finite (EnhancedFundInputs.fundSize inputs),
            ForecastResult.warnings := []\<rparr>)"

definition noOverrides :: ParameterOverrides where
  "noOverrides =
    \<lparr>ParameterOverrides.fundSize = None,
     ParameterOverrides.stageAllocations = None,
     ParameterOverrides.exitProbabilities = None,
     ParameterOverrides.exitMultiples = None,
     ParameterOverrides.feeAdjustments = None,
     ParameterOverrides.timingAdjustments = None\<rparr>"

definition exampleScenario :: "string \<Rightarrow> bool option \<Rightarrow> real option \<Rightarrow> ScenarioDefinition" where
  "exampleScenario ident baseline fund =
    \<lparr>ScenarioDefinition.id = ident,
     ScenarioDefinition.name = ident,
     description = [],
     category = custom,
     parameterOverrides = noOverrides\<lparr>ParameterOverrides.fundSize := fund\<rparr>,
     weight = None,
     isBaseline = baseline\<rparr>"

text \<open>A baseline and a larger fund; two scenarios with one id; six scenarios.\<close>

definition twoScenarioRunner :: EnhancedBatchRunner where
  "twoScenarioRunner =
    addScenario (exampleScenario ''large'' None (Some 200000000))
      (addScenario (exampleScenario ''baseline'' (Some True) None)
        (newEnhancedBatchRunner None defaultInputs))"

definition twinRunner :: EnhancedBatchRunner where
  "twinRunner =
    addScenario (exampleScenario ''twin'' None (Some 200000000))
      (addScenario (exampleScenario ''twin'' (Some True) None)
        (newEnhancedBatchRunner None defaultInputs))"

definition sixScenarioRunner :: EnhancedBatchRunner where
  "sixScenarioRunner =
    addScenario (exampleScenario ''f'' None (Some 600000000))
      (addScenario (exampleScenario ''e'' None (Some 500000000))
        (addScenario (exampleScenario ''d'' None (Some 400000000))
          (addScenario (exampleScenario ''c'' None (Some 300000000))
            (addScenario (exampleScenario ''b'' None (Some 200000000))
              (addScenario (exampleScenario ''a'' (Some True) None)
                (newEnhancedBatchRunner None defaultInputs))))))"

definition flagged :: "ScenarioDefinition \<Rightarrow> bool" where
  "flagged scenario \<longleftrightarrow> isBaseline scenario = Some True"

text \<open>Three sequences of values of \<open>Math.random()\<close>.\<close>

definition drawsZero :: "nat \<Rightarrow> real" where
  "drawsZero i = 0"

definition drawsHalf :: "nat \<Rightarrow> real" where
  "drawsHalf i = 1 / 2"

definition drawsLate :: "nat \<Rightarrow> real" where
  "drawsLate i = (if i < 40 then 0 else 1 / 2)"

text \<open>A forecast of the application with the net asset values of its timeline erased.\<close>

definition withoutNav :: "AppForecastResult \<Rightarrow> AppForecastResult" where
  "withoutNav forecast =
    forecast\<lparr>AppForecastResult.timeline :=
      map (\<lambda>point. point\<lparr>nav := 0\<rparr>) (AppForecastResult.timeline forecast)\<rparr>"







section \<open>Properties of the numbers\<close>

text \<open>Rounding is evaluated by giving the exponent of the argument and the multiple of
  the spacing next to it.\<close>

lemma binade_eq:
  assumes "2 powi e \<le> \<bar>x\<bar>" and "\<bar>x\<bar> < 2 powi (e + 1)"
  shows "binade x = e"
proof -
  have "(0::real) < 2 powi e" by simp
  with assms(1) have pos: "0 < \<bar>x\<bar>" by linarith
  have "(2::real) powr (of_int e) = 2 powi e"
    by (simp add: powr_real_of_int')
  moreover have "(2::real) powr (of_int e + 1) = 2 powi (e + 1)"
    using powr_real_of_int'[of 2 "e + 1"] by simp
  ultimately have "2 powr (of_int e) \<le> \<bar>x\<bar> \<and> \<bar>x\<bar> < 2 powr (of_int e + 1)"
    using assms by simp
  then show ?thesis
    unfolding binade_def using floor_log_eq_powr_iff[OF pos, of 2 e] by simp
qed

lemma roundTiesToEven_near:
  assumes "\<bar>y - of_int n\<bar> < 1 / 2"
  shows "roundTiesToEven y = n"
proof (cases "of_int n \<le> y")
  case True
  with assms have "\<lfloor>y\<rfloor> = n" unfolding floor_eq_iff by linarith
  with assms True show ?thesis by (simp add: roundTiesToEven_def Let_def)
next
  case False
  with assms have f: "\<lfloor>y\<rfloor> = n - 1" unfolding floor_eq_iff by simp
  have "y - of_int (n - 1) > 1 / 2" using assms False by simp
  with f show ?thesis by (simp add: roundTiesToEven_def Let_def)
qed

lemma roundTiesToEven_tie:
  assumes "y = of_int n + 1 / 2"
  shows "roundTiesToEven y = (if even n then n else n + 1)"
proof -
  from assms have "\<lfloor>y\<rfloor> = n" by (simp add: floor_eq_iff)
  with assms show ?thesis by (simp add: roundTiesToEven_def Let_def)
qed

lemma quantum_eq:
  assumes "2 powi e \<le> \<bar>x\<bar>" and "\<bar>x\<bar> < 2 powi (e + 1)"
  shows "x \<noteq> 0" and "quantum x = max (e - 52) (- 1074)"
proof -
  show "x \<noteq> 0"
  proof
    assume "x = 0"
    with assms(1) have "(2::real) powi e \<le> 0" by simp
    moreover have "(0::real) < 2 powi e" by (rule zero_less_power_int) simp
    ultimately show False by linarith
  qed
  show "quantum x = max (e - 52) (- 1074)"
    by (simp add: quantum_def binade_eq[OF assms])
qed

lemma rnd_near:
  assumes "2 powi e \<le> \<bar>x\<bar>" and "\<bar>x\<bar> < 2 powi (e + 1)"
    and "q = max (e - 52) (- 1074)"
    and "\<bar>x / 2 powi q - of_int n\<bar> < 1 / 2"
  shows "rnd x = of_int n * 2 powi q"
proof -
  have "quantum x = q" using quantum_eq(2)[OF assms(1,2)] assms(3) by simp
  with quantum_eq(1)[OF assms(1,2)] show ?thesis
    by (simp add: rnd_def roundTiesToEven_near[OF assms(4)])
qed

lemma rnd_tie:
  assumes "2 powi e \<le> \<bar>x\<bar>" and "\<bar>x\<bar> < 2 powi (e + 1)"
    and "q = max (e - 52) (- 1074)"
    and "x / 2 powi q = of_int n + 1 / 2"
  shows "rnd x = of_int (if even n then n else n + 1) * 2 powi q"
proof -
  have "quantum x = q" using quantum_eq(2)[OF assms(1,2)] assms(3) by simp
  with quantum_eq(1)[OF assms(1,2)] show ?thesis
    by (simp add: rnd_def roundTiesToEven_tie[OF assms(4)])
qed

lemma round64_near:
  assumes "2 powi e \<le> \<bar>x\<bar>" and "\<bar>x\<bar> < 2 powi (e + 1)"
    and "q = max (e - 52) (- 1074)"
    and "\<bar>x / 2 powi q - of_int n\<bar> < 1 / 2"
    and "\<bar>of_int n * 2 powi q\<bar> < (2::real) ^ 1024"
  shows "round64 x = Finite (of_int n * 2 powi q)"
  using assms(5) unfolding round64_def rnd_near[OF assms(1-4)] Let_def
  by (simp only: abs_less_iff) (simp add: not_le)

lemma round64_tie:
  assumes "2 powi e \<le> \<bar>x\<bar>" and "\<bar>x\<bar> < 2 powi (e + 1)"
    and "q = max (e - 52) (- 1074)"
    and "x / 2 powi q = of_int n + 1 / 2"
    and "\<bar>of_int (if even n then n else n + 1) * 2 powi q\<bar> < (2::real) ^ 1024"
  shows "round64 x = Finite (of_int (if even n then n else n + 1) * 2 powi q)"
  using assms(5) unfolding round64_def rnd_tie[OF assms(1-4)] Let_def
  by (simp only: abs_less_iff) (simp add: not_le)

lemma round64_zero: "round64 0 = Finite 0"
  by (simp add: round64_def rnd_def)

text \<open>A sum with a NaN among its terms is NaN.\<close>

lemma numAdd_NaN: "numAdd a NaN = NaN"
  by (cases a) simp_all

lemma foldl_numAdd_NaN: "foldl numAdd NaN xs = NaN"
  by (induction xs) simp_all

lemma foldl_numAdd_has_NaN: "NaN \<in> set xs \<Longrightarrow> foldl numAdd a xs = NaN"
  by (induction xs arbitrary: a) (auto simp: numAdd_NaN foldl_numAdd_NaN)



text \<open>Three checks of the model against what doubles are known to do: 0.1 + 0.2 is
  0.30000000000000004 and not the double 0.3; the largest double is \<open>2 ^ 1024 - 2 ^ 971\<close>,
  and the real halfway from it to \<open>2 ^ 1024\<close> overflows; the real halfway from 0 to the
  smallest subnormal rounds to 0.\<close>

lemma one_tenth_plus_two_tenths:
  "numAdd (lit 0.1) (lit 0.2) = Finite (5404319552844596 / 2 ^ 54)"
  "lit 0.3 = Finite (5404319552844595 / 2 ^ 54)"
  using round64_near[of "-4" "1 / 10" "-56" 7205759403792794]
    round64_near[of "-3" "1 / 5" "-55" 7205759403792794]
    round64_tie[of "-2" "10808639105689191 / 36028797018963968" "-54" 5404319552844595]
    round64_near[of "-2" "3 / 10" "-54" 5404319552844595]
  by (simp_all add: lit_def)

lemma largest_double:
  "round64 (2 ^ 1024 - 2 ^ 971) = Finite (2 ^ 1024 - 2 ^ 971)"
  "round64 (2 ^ 1024 - 2 ^ 970) = PosInf"
  using round64_near[of 1023 "2 ^ 1024 - 2 ^ 971" 971 "2 ^ 53 - 1"]
    rnd_tie[of 1023 "2 ^ 1024 - 2 ^ 970" 971 "2 ^ 53 - 1"]
  by (simp_all add: round64_def Let_def)

lemma smallest_subnormal:
  "round64 (1 / 2 ^ 1075) = Finite 0"
  "round64 (3 / 2 ^ 1075) = Finite (2 / 2 ^ 1074)"
  using rnd_tie[of "-1075" "1 / 2 ^ 1075" "-1074" 0]
    round64_tie[of "-1074" "3 / 2 ^ 1075" "-1074" 1]
  by (simp_all add: round64_def Let_def)

text \<open>The literals and the sums that the examples below need.\<close>

lemma lit_0_15: "lit 0.15 = Finite (5404319552844595 / 2 ^ 55)"
  using round64_near[of "-3" "3 / 20" "-55" 5404319552844595] by (simp add: lit_def)

lemma lit_0_35: "lit 0.35 = Finite (3152519739159347 / 2 ^ 53)"
  using round64_near[of "-2" "7 / 20" "-54" 6305039478318694] by (simp add: lit_def)

lemma lit_0_5: "lit 0.5 = Finite (1 / 2 ^ 1)"
  using round64_near[of "-1" "1 / 2" "-53" 4503599627370496] by (simp add: lit_def)

lemma lit_0_001: "lit 0.001 = Finite (1152921504606847 / 2 ^ 60)"
  using round64_near[of "-10" "1 / 1000" "-62" 4611686018427388] by (simp add: lit_def)

lemma lit_0_65: "lit 0.65 = Finite (5854679515581645 / 2 ^ 53)"
  using round64_near[of "-1" "13 / 20" "-53" 5854679515581645] by (simp add: lit_def)

lemma lit_0_6: "lit 0.6 = Finite (5404319552844595 / 2 ^ 53)"
  using round64_near[of "-1" "3 / 5" "-53" 5404319552844595] by (simp add: lit_def)

lemma lit_0_55: "lit 0.55 = Finite (2476979795053773 / 2 ^ 52)"
  using round64_near[of "-1" "11 / 20" "-53" 4953959590107546] by (simp add: lit_def)

lemma lit_0_45: "lit 0.45 = Finite (8106479329266893 / 2 ^ 54)"
  using round64_near[of "-2" "9 / 20" "-54" 8106479329266893] by (simp add: lit_def)

lemma lit_0_4: "lit 0.4 = Finite (3602879701896397 / 2 ^ 53)"
  using round64_near[of "-2" "2 / 5" "-54" 7205759403792794] by (simp add: lit_def)

lemma lit_0_2: "lit 0.2 = Finite (3602879701896397 / 2 ^ 54)"
  using round64_near[of "-3" "1 / 5" "-55" 7205759403792794] by (simp add: lit_def)

lemma lit_0_3: "lit 0.3 = Finite (5404319552844595 / 2 ^ 54)"
  using round64_near[of "-2" "3 / 10" "-54" 5404319552844595] by (simp add: lit_def)


section \<open>Properties of the validation service\<close>

text \<open>The codes and the fields that each block of the validator can emit.\<close>

lemma validateStageStrategy_emits:
  assumes "e \<in> set (validateStageStrategy strategy index)"
  shows "ValidationError.code e \<in> {''INVALID_ALLOCATION_PCT'', ''INVALID_CHECK_COUNT'',
           ''INVALID_CHECK_SIZE'', ''INVALID_OWNERSHIP'', ''INVALID_RESERVE_RATIO''}"
    and "hd (ValidationError.field e) = CHR ''s''"
  using assms by (auto simp: validateStageStrategy_def Let_def split: if_splits)

lemma validateFeeProfile_emits:
  assumes "e \<in> set (validateFeeProfile fp)"
  shows "ValidationError.code e \<in> {''INVALID_MGMT_FEE'', ''INVALID_CARRY'', ''INVALID_HURDLE'',
           ''INVALID_GP_COMMIT''}"
    and "hd (ValidationError.field e) = CHR ''f''"
  using assms by (auto simp: validateFeeProfile_def split: if_splits)

lemma fundSizeValidation_emits:
  assumes "e \<in> set (fundSizeValidation inputs)"
  shows "ValidationError.code e \<in> {''INVALID_FUND_SIZE'', ''FUND_SIZE_TOO_SMALL'',
           ''FUND_SIZE_TOO_LARGE''}"
    and "hd (ValidationError.field e) = CHR ''f''"
  using assms by (auto simp: fundSizeValidation_def split: if_splits)

lemma timelineValidation_emits:
  assumes "e \<in> set (timelineValidation inputs)"
  shows "ValidationError.code e \<in> {''INVALID_TIMELINE'', ''EXCESSIVE_FUND_LIFE''}"
    and "hd (ValidationError.field e) \<in> {CHR ''i'', CHR ''f''}"
  using assms by (auto simp: timelineValidation_def split: if_splits)

lemma validateGraduationMatrix_emits:
  assumes "e \<in> set (validateGraduationMatrix matrix)"
  shows "ValidationError.code e = ''EXCESSIVE_GRADUATION''"
  using assms
  by (auto simp: validateGraduationMatrix_def validateGraduationRow_def Let_def split: if_splits)


lemma allocation_sum_code_in_block:
  "''INVALID_ALLOCATION_SUM'' \<in> set (map ValidationError.code (stageAllocationValidation inputs))
   \<longleftrightarrow> EnhancedFundInputs.stageStrategies inputs \<noteq> [] \<and>
       numGt (mathAbs (numSub (totalAllocation (EnhancedFundInputs.stageStrategies inputs))
                              (Finite 1)))
             (lit 0.001)"
  by (auto simp: stageAllocationValidation_def dest!: validateStageStrategy_emits(1)
      split: if_splits)

lemma allocation_sum_code_only_in_block:
  "''INVALID_ALLOCATION_SUM'' \<in> set (map ValidationError.code (validateFundInputs inputs))
   \<longleftrightarrow> ''INVALID_ALLOCATION_SUM'' \<in> set (map ValidationError.code (stageAllocationValidation inputs))"
  unfolding validateFundInputs_def
  by (auto dest!: fundSizeValidation_emits(1) validateFeeProfile_emits(1)
      validateGraduationMatrix_emits timelineValidation_emits(1))





text \<open>The totals of the default configuration.\<close>

lemma defaultInputs_total:
  "totalAllocation (EnhancedFundInputs.stageStrategies defaultInputs) = Finite 1"
  using lit_0_15 lit_0_35 lit_0_5
    round64_near[of "-3" "5404319552844595 / 36028797018963968" "-55" 5404319552844595]
    round64_tie[of "-2" "18014398509481983 / 36028797018963968" "-54" 9007199254740991]
    round64_near[of 0 "1" "-52" 4503599627370496]
  by (simp add: totalAllocation_def defaultInputs_def getInputs_def getDefaultState_def)

lemma defaultInputs_graduation:
  "map (\<lambda>row. graduationTotal (snd row)) (EnhancedFundInputs.graduationMatrix defaultInputs) =
     [Finite (5854679515581645 / 2 ^ 53), Finite (5404319552844595 / 2 ^ 53),
      Finite (2476979795053773 / 2 ^ 52), Finite (1 / 2), Finite (8106479329266893 / 2 ^ 54)]"
  using lit_0_65 lit_0_6 lit_0_55 lit_0_5 lit_0_45
    round64_near[of "-1" "5854679515581645 / 9007199254740992" "-53" 5854679515581645]
    round64_near[of "-1" "5404319552844595 / 9007199254740992" "-53" 5404319552844595]
    round64_near[of "-1" "2476979795053773 / 4503599627370496" "-53" 4953959590107546]
    round64_near[of "-1" "1 / 2" "-53" 4503599627370496]
    round64_near[of "-2" "8106479329266893 / 18014398509481984" "-54" 8106479329266893]
  by (simp add: graduationTotal_def defaultInputs_def getInputs_def getDefaultState_def)

lemma defaultInputs_stageAllocation: "stageAllocationValidation defaultInputs = []"
proof -
  have "\<not> numGt (mathAbs (numSub (totalAllocation (EnhancedFundInputs.stageStrategies defaultInputs))
                                  (Finite 1))) (lit 0.001)"
    using lit_0_001 by (simp add: defaultInputs_total numSub_def round64_zero numGt_def)
  moreover have "concat (map (\<lambda>(strategy, index). validateStageStrategy strategy index)
                   (zip (EnhancedFundInputs.stageStrategies defaultInputs)
                        [0..<length (EnhancedFundInputs.stageStrategies defaultInputs)])) = []"
    using lit_0_15 lit_0_35 lit_0_5
    by (simp add: validateStageStrategy_def defaultInputs_def getInputs_def getDefaultState_def
        numGt_def upt_conv_Cons)
  moreover have "EnhancedFundInputs.stageStrategies defaultInputs \<noteq> []"
    by (simp add: defaultInputs_def getInputs_def getDefaultState_def)
  ultimately show ?thesis
    by (simp add: stageAllocationValidation_def)
qed

lemma defaultInputs_graduationMatrix:
  "validateGraduationMatrix (EnhancedFundInputs.graduationMatrix defaultInputs) = []"
  using defaultInputs_graduation
  by (simp add: validateGraduationMatrix_def validateGraduationRow_def Let_def numGt_def
      defaultInputs_def getInputs_def getDefaultState_def)

lemma defaultInputs_valid: "validateFundInputs defaultInputs = []"
  unfolding validateFundInputs_def defaultInputs_stageAllocation defaultInputs_graduationMatrix
  by (simp add: fundSizeValidation_def timelineValidation_def validateFeeProfile_def
      getInputs_def getDefaultState_def defaultInputs_def)

text \<open>A variant of the default configuration with its strategies, its fees and its
  graduation matrix has the errors of its fund size and of its timeline only.\<close>

lemma variant_of_defaultInputs:
  assumes "EnhancedFundInputs.stageStrategies inputs = EnhancedFundInputs.stageStrategies defaultInputs"
    and "EnhancedFundInputs.feeProfile inputs = EnhancedFundInputs.feeProfile defaultInputs"
    and "EnhancedFundInputs.graduationMatrix inputs = EnhancedFundInputs.graduationMatrix defaultInputs"
  shows "validateFundInputs inputs = fundSizeValidation inputs @ timelineValidation inputs"
proof -
  have "stageAllocationValidation inputs = stageAllocationValidation defaultInputs"
    by (simp add: stageAllocationValidation_def assms(1))
  moreover have "validateFeeProfile (EnhancedFundInputs.feeProfile defaultInputs) = []"
    by (simp add: validateFeeProfile_def getInputs_def getDefaultState_def defaultInputs_def)
  ultimately show ?thesis
    by (simp add: validateFundInputs_def assms(2,3) defaultInputs_stageAllocation
        defaultInputs_graduationMatrix)
qed




text \<open>
  The total is rounded at every addition. The allocations 1 and 0.0010000000000000002 are
  accepted, since their double sum is 1.001 and its distance from 1 the double
  0.0009999999999998899, although the exact sum of the two doubles is farther than 0.001
  from 1. The one allocation 0.999 is rejected, the distance of its double from 1 being
  0.0010000000000000009, although the decimal 0.999 is within 0.001 of 1.
\<close>

lemma allocation_total_is_rounded:
  "''INVALID_ALLOCATION_SUM''
     \<notin> set (map ValidationError.code
          (validateFundInputs (withAllocations [Finite 1, lit 0.0010000000000000002])))"
  "lit 0.0010000000000000002 = Finite (4611686018427389 / 2 ^ 62)"
  "\<bar>(1 + 4611686018427389 / 2 ^ 62) - 1\<bar> > (0.001 :: real)"
proof -
  show small: "lit 0.0010000000000000002 = Finite (4611686018427389 / 2 ^ 62)"
    using round64_near[of "-10" "5000000000000001 / 5000000000000000000" "-62" 4611686018427389]
    by (simp add: lit_def)
  have "\<not> numGt (mathAbs (numSub (totalAllocation (EnhancedFundInputs.stageStrategies
                   (withAllocations [Finite 1, lit 0.0010000000000000002]))) (Finite 1)))
               (lit 0.001)"
    using small lit_0_001
      round64_near[of 0 "1" "-52" 4503599627370496]
      round64_near[of 0 "4616297704445815293 / 4611686018427387904" "-52" 4508103226997866]
      round64_near[of "-10" "2251799813685 / 2251799813685248" "-62" 4611686018426880]
    by (simp add: withAllocations_def totalAllocation_def exampleStrategy_def numSub_def numGt_def)
  then show "''INVALID_ALLOCATION_SUM''
     \<notin> set (map ValidationError.code
          (validateFundInputs (withAllocations [Finite 1, lit 0.0010000000000000002])))"
    unfolding allocation_sum_code_only_in_block allocation_sum_code_in_block by simp
  show "\<bar>(1 + 4611686018427389 / 2 ^ 62) - 1\<bar> > (0.001 :: real)" by simp
qed

lemma allocation_literal_is_rounded:
  "''INVALID_ALLOCATION_SUM''
     \<in> set (map ValidationError.code (validateFundInputs (withAllocations [lit 0.999])))"
  "\<bar>0.999 - 1\<bar> \<le> (0.001 :: real)"
proof -
  have "numGt (mathAbs (numSub (totalAllocation (EnhancedFundInputs.stageStrategies
                   (withAllocations [lit 0.999]))) (Finite 1)))
               (lit 0.001)"
    using lit_0_001
      round64_near[of "-1" "999 / 1000" "-53" 8998192055486251]
      round64_near[of "-1" "8998192055486251 / 9007199254740992" "-53" 8998192055486251]
      round64_near[of "-10" "- (9007199254741 / 9007199254740992)" "-62" "-4611686018427392"]
    by (simp add: withAllocations_def totalAllocation_def exampleStrategy_def numSub_def numGt_def
        lit_def)
  moreover have "EnhancedFundInputs.stageStrategies (withAllocations [lit 0.999]) \<noteq> []"
    by (simp add: withAllocations_def)
  ultimately show "''INVALID_ALLOCATION_SUM''
     \<in> set (map ValidationError.code (validateFundInputs (withAllocations [lit 0.999])))"
    unfolding allocation_sum_code_only_in_block allocation_sum_code_in_block by simp
  show "\<bar>0.999 - 1\<bar> \<le> (0.001 :: real)" by simp
qed










text \<open>
  The total of a row is rounded at every addition. The rates 0.5, 0.5 and \<open>2 ^ - 60\<close> are
  accepted, their double sum being 1, although their exact sum is more than 1. The rates
  0.34, 0.56 and 0.1 are rejected, their double sum being 1.0000000000000002, although the
  three decimals add up to 1.
\<close>

lemma graduation_total_is_rounded:
  "validateFundInputs
     (withGraduations [(Seed, Finite (1 / 2)), (SeriesA, Finite (1 / 2)), (SeriesB, Finite (1 / 2 ^ 60))])
   = []"
  "1 / 2 + 1 / 2 + 1 / 2 ^ 60 > (1 :: real)"
proof -
  let ?inputs = "withGraduations
     [(Seed, Finite (1 / 2)), (SeriesA, Finite (1 / 2)), (SeriesB, Finite (1 / 2 ^ 60))]"
  have "validateGraduationMatrix (EnhancedFundInputs.graduationMatrix ?inputs) = []"
    using round64_near[of "-1" "1 / 2" "-53" 4503599627370496]
      round64_near[of 0 "1" "-52" 4503599627370496]
      round64_near[of 0 "1152921504606846977 / 1152921504606846976" "-52" 4503599627370496]
    by (simp add: withGraduations_def validateGraduationMatrix_def validateGraduationRow_def
        graduationTotal_def numGt_def)
  moreover have "fundSizeValidation ?inputs = fundSizeValidation defaultInputs"
    "timelineValidation ?inputs = timelineValidation defaultInputs"
    "stageAllocationValidation ?inputs = stageAllocationValidation defaultInputs"
    by (simp_all add: withGraduations_def fundSizeValidation_def timelineValidation_def
        stageAllocationValidation_def)
  ultimately have "validateFundInputs ?inputs = validateFundInputs defaultInputs"
    by (simp add: validateFundInputs_def defaultInputs_graduationMatrix withGraduations_def)
  then show "validateFundInputs ?inputs = []" by (simp add: defaultInputs_valid)
  show "1 / 2 + 1 / 2 + 1 / 2 ^ 60 > (1 :: real)" by simp
qed

lemma graduation_literals_are_rounded:
  "map ValidationError.code
     (validateFundInputs (withGraduations [(Seed, lit 0.34), (SeriesA, lit 0.56), (SeriesB, lit 0.1)]))
   = [''EXCESSIVE_GRADUATION'']"
  "0.34 + 0.56 + 0.1 = (1 :: real)"
proof -
  let ?inputs = "withGraduations [(Seed, lit 0.34), (SeriesA, lit 0.56), (SeriesB, lit 0.1)]"
  have "map ValidationError.code (validateGraduationMatrix (EnhancedFundInputs.graduationMatrix ?inputs))
        = [''EXCESSIVE_GRADUATION'']"
    using round64_near[of "-2" "17 / 50" "-54" 6124895493223875]
      round64_near[of "-1" "14 / 25" "-53" 5044031582654956]
      round64_near[of "-4" "1 / 10" "-56" 7205759403792794]
      round64_near[of "-2" "6124895493223875 / 18014398509481984" "-54" 6124895493223875]
      round64_tie[of "-1" "16212958658533787 / 18014398509481984" "-53" 8106479329266893]
      round64_near[of 0 "36028797018963973 / 36028797018963968" "-52" 4503599627370497]
    by (simp add: withGraduations_def validateGraduationMatrix_def validateGraduationRow_def
        graduationTotal_def numGt_def lit_def)
  moreover have "fundSizeValidation ?inputs = fundSizeValidation defaultInputs"
    "timelineValidation ?inputs = timelineValidation defaultInputs"
    "stageAllocationValidation ?inputs = stageAllocationValidation defaultInputs"
    by (simp_all add: withGraduations_def fundSizeValidation_def timelineValidation_def
        stageAllocationValidation_def)
  moreover have "fundSizeValidation defaultInputs = []" "timelineValidation defaultInputs = []"
    "validateFeeProfile (EnhancedFundInputs.feeProfile defaultInputs) = []"
    by (simp_all add: fundSizeValidation_def timelineValidation_def validateFeeProfile_def
        getInputs_def getDefaultState_def defaultInputs_def)
  ultimately show "map ValidationError.code (validateFundInputs ?inputs) = [''EXCESSIVE_GRADUATION'']"
    by (simp add: validateFundInputs_def defaultInputs_stageAllocation withGraduations_def)
  show "0.34 + 0.56 + 0.1 = (1 :: real)" by simp
qed

section \<open>Properties of the calculation context\<close>

text \<open>
  Claim C3. When \<open>validateFundInputs\<close> returns at least one error, \<open>calculateForecast\<close>
  throws the validation failure that carries the whole list of errors, it does not call
  \<open>buildEnhancedFundForecast\<close>, and the stored forecast result is unchanged.
\<close>

theorem validation_failure_blocks_the_forecast:
  assumes "validateFundInputs inputs \<noteq> []"
  shows "fst (calculateForecast build instant ticks inputs state)
           = Inl (ValidationFailure ''Validation failed'' (validateFundInputs inputs))
       \<and> snd (snd (calculateForecast build instant ticks inputs state)) = []
       \<and> CalculationState.forecastResult (fst (snd (calculateForecast build instant ticks inputs state)))
           = CalculationState.forecastResult state"
  using assms by (simp add: calculateForecast_def Let_def)

lemma negativeFund_errors:
  "map ValidationError.code (validateFundInputs negativeFund) = [''INVALID_FUND_SIZE'']"
proof -
  have "validateFundInputs negativeFund
        = fundSizeValidation negativeFund @ timelineValidation negativeFund"
    by (rule variant_of_defaultInputs) (simp_all add: negativeFund_def)
  then show ?thesis
    by (simp add: fundSizeValidation_def timelineValidation_def getInputs_def
        getDefaultState_def defaultInputs_def negativeFund_def)
qed

theorem validation_failure_witness:
  "validateFundInputs negativeFund \<noteq> [] \<and>
   fst (calculateForecast failingForecast 0 3 negativeFund initialCalculationState)
     = Inl (ValidationFailure ''Validation failed'' (validateFundInputs negativeFund)) \<and>
   snd (snd (calculateForecast failingForecast 0 3 negativeFund initialCalculationState)) = [] \<and>
   CalculationState.forecastResult
     (fst (snd (calculateForecast failingForecast 0 3 negativeFund initialCalculationState)))
     = None"
proof -
  have e: "validateFundInputs negativeFund \<noteq> []"
    using negativeFund_errors by auto
  from validation_failure_blocks_the_forecast[OF e, of failingForecast 0 3 initialCalculationState] e
  show ?thesis by (simp add: initialCalculationState_def)
qed

text \<open>
  Claim C2, at the inputs where the code departs from it. A fund size of 5,000,000 puts
  \<open>FUND_SIZE_TOO_SMALL\<close> on the list of errors, a fund life of 61 quarters puts
  \<open>EXCESSIVE_FUND_LIFE\<close> there, and \<open>calculateForecast\<close> throws on either list: both
  findings block the forecast.
\<close>

theorem advisory_findings_block_the_forecast:
  "map ValidationError.code (validateFundInputs fiveMillionFund) = [''FUND_SIZE_TOO_SMALL'']
   \<and> fst (calculateForecast build instant ticks fiveMillionFund state)
       = Inl (ValidationFailure ''Validation failed'' (validateFundInputs fiveMillionFund))
   \<and> map ValidationError.code (validateFundInputs sixtyOneQuarterFund) = [''EXCESSIVE_FUND_LIFE'']
   \<and> fst (calculateForecast build instant ticks sixtyOneQuarterFund state)
       = Inl (ValidationFailure ''Validation failed'' (validateFundInputs sixtyOneQuarterFund))"
proof -
  have "validateFundInputs fiveMillionFund
        = fundSizeValidation fiveMillionFund @ timelineValidation fiveMillionFund"
    by (rule variant_of_defaultInputs) (simp_all add: fiveMillionFund_def)
  then have five: "map ValidationError.code (validateFundInputs fiveMillionFund) = [''FUND_SIZE_TOO_SMALL'']"
    by (simp add: fundSizeValidation_def timelineValidation_def getInputs_def
        getDefaultState_def defaultInputs_def fiveMillionFund_def)
  have "validateFundInputs sixtyOneQuarterFund
        = fundSizeValidation sixtyOneQuarterFund @ timelineValidation sixtyOneQuarterFund"
    by (rule variant_of_defaultInputs) (simp_all add: sixtyOneQuarterFund_def)
  then have life: "map ValidationError.code (validateFundInputs sixtyOneQuarterFund) = [''EXCESSIVE_FUND_LIFE'']"
    by (simp add: fundSizeValidation_def timelineValidation_def getInputs_def
        getDefaultState_def defaultInputs_def sixtyOneQuarterFund_def)
  from five have "validateFundInputs fiveMillionFund \<noteq> []" by auto
  moreover from life have "validateFundInputs sixtyOneQuarterFund \<noteq> []" by auto
  ultimately show ?thesis using five life by (simp add: calculateForecast_def Let_def)
qed

text \<open>The validator of the single-file application gives the same finding on the fund
  size the severity of a warning, and the warnings of the validation service never carry
  it.\<close>

lemma application_small_fund_is_a_warning:
  "map AppValidationError.severity
     (fst (appValidateInputs (initialState\<lparr>AppState.fundSize := 5000000\<rparr>))) = [warning]"
  using lit_0_2 lit_0_5 lit_0_3 lit_0_001
    round64_near[of "-3" "3602879701896397 / 18014398509481984" "-55" 7205759403792794]
    round64_tie[of "-1" "12610078956637389 / 18014398509481984" "-53" 6305039478318694]
    round64_tie[of "-1" "18014398509481983 / 18014398509481984" "-53" 9007199254740991]
  by (simp add: appValidateInputs_def initialState_def appTotalAllocation_def Let_def
      numSub_def round64_zero numGt_def)

lemma small_fund_not_among_warnings:
  "''FUND_SIZE_TOO_SMALL'' \<notin> set (map ValidationWarning.code (getWarnings inputs))"
  by (auto simp: getWarnings_def split: if_splits option.splits)

section \<open>Properties of the forecast of the application\<close>

lemma appCalculateForecast_result:
  "AppState.forecastResult (appCalculateForecast random state) = Some (mockResult random state)"
  by (simp add: appCalculateForecast_def)

lemma mockResult_timeline:
  "AppForecastResult.timeline (mockResult random state) = map (timelinePoint random state) [0..<40]"
  unfolding mockResult_def by (simp only: AppForecastResult.select_convs)

lemma timelinePoint_cong:
  "random1 i = random2 i \<Longrightarrow> timelinePoint random1 state i = timelinePoint random2 state i"
  by (simp add: timelinePoint_def)

lemma timeline_cong:
  assumes "map random1 indices = map random2 indices"
  shows "map (timelinePoint random1 state) indices = map (timelinePoint random2 state) indices"
proof -
  from assms have "\<forall>i \<in> set indices. random1 i = random2 i"
    by (simp only: map_eq_conv)
  then have "\<forall>i \<in> set indices. timelinePoint random1 state i = timelinePoint random2 state i"
    by (blast intro: timelinePoint_cong)
  then show ?thesis
    by (simp only: map_eq_conv)
qed

lemma withoutNav_timeline:
  "map (\<lambda>point. point\<lparr>nav := 0\<rparr>) (map (timelinePoint random1 state) indices)
   = map (\<lambda>point. point\<lparr>nav := 0\<rparr>) (map (timelinePoint random2 state) indices)"
  by (induction indices) (simp_all add: timelinePoint_def)


text \<open>
  Claim C1 fails as stated: on one state, with the draws of \<open>Math.random()\<close> all 0 in
  one run and all 1/2 in the other, the two forecasts that \<open>calculateForecast\<close> stores are
  different.
\<close>

theorem different_draws_different_forecasts:
  "AppState.forecastResult (appCalculateForecast drawsZero initialState)
     \<noteq> AppState.forecastResult (appCalculateForecast drawsHalf initialState)"
proof
  assume "AppState.forecastResult (appCalculateForecast drawsZero initialState)
            = AppState.forecastResult (appCalculateForecast drawsHalf initialState)"
  then have "AppForecastResult.timeline (mockResult drawsZero initialState)
              = AppForecastResult.timeline (mockResult drawsHalf initialState)"
    by (simp only: appCalculateForecast_result option.inject)
  then have "\<forall>i \<in> set [0..<40]. timelinePoint drawsZero initialState i
                                  = timelinePoint drawsHalf initialState i"
    by (simp only: mockResult_timeline map_eq_conv)
  moreover have "0 \<in> set [0..<40]" by simp
  ultimately have "timelinePoint drawsZero initialState 0 = timelinePoint drawsHalf initialState 0"
    by blast
  then have "nav (timelinePoint drawsZero initialState 0) = nav (timelinePoint drawsHalf initialState 0)"
    by simp
  then show False
    by (simp add: timelinePoint_def drawsZero_def drawsHalf_def initialState_def)
qed

text \<open>
  Claim C1, amended. Two runs of \<open>calculateForecast\<close> on one state in which
  \<open>Math.random()\<close> returns the same forty values leave the same state, forecast included;
  and whatever the draws, the two forecasts are equal in every field but the net asset
  values of the timeline.
\<close>

theorem same_draws_same_forecast:
  "(map random1 [0..<40] = map random2 [0..<40]
      \<longrightarrow> appCalculateForecast random1 state = appCalculateForecast random2 state)
   \<and> withoutNav (mockResult random1 state) = withoutNav (mockResult random2 state)"
proof
  show "map random1 [0..<40] = map random2 [0..<40]
      \<longrightarrow> appCalculateForecast random1 state = appCalculateForecast random2 state"
  proof
    assume "map random1 [0..<40] = map random2 [0..<40]"
    then have "map (timelinePoint random1 state) [0..<40] = map (timelinePoint random2 state) [0..<40]"
      by (rule timeline_cong)
    then have "mockResult random1 state = mockResult random2 state"
      unfolding mockResult_def by (simp only:)
    then show "appCalculateForecast random1 state = appCalculateForecast random2 state"
      unfolding appCalculateForecast_def by (simp only:)
  qed
  have "map (\<lambda>point. point\<lparr>nav := 0\<rparr>) (map (timelinePoint random1 state) [0..<40])
        = map (\<lambda>point. point\<lparr>nav := 0\<rparr>) (map (timelinePoint random2 state) [0..<40])"
    by (rule withoutNav_timeline)
  then show "withoutNav (mockResult random1 state) = withoutNav (mockResult random2 state)"
    unfolding withoutNav_def mockResult_def
    by (simp only: AppForecastResult.select_convs AppForecastResult.update_convs)
qed

theorem same_draws_witness:
  "map drawsZero [0..<40] = map drawsLate [0..<40]
   \<and> drawsZero 40 \<noteq> drawsLate 40
   \<and> appCalculateForecast drawsZero initialState = appCalculateForecast drawsLate initialState"
proof -
  have "\<forall>i \<in> set [0..<40]. drawsZero i = drawsLate i"
    by (simp add: drawsZero_def drawsLate_def)
  then have "map drawsZero [0..<40] = map drawsLate [0..<40]"
    by (simp only: map_eq_conv)
  moreover have "drawsZero 40 \<noteq> drawsLate 40"
    by (simp add: drawsZero_def drawsLate_def)
  ultimately show ?thesis
    using same_draws_same_forecast[of drawsZero drawsLate initialState] by blast
qed

section \<open>Properties of the batch runner\<close>

text \<open>With more than five scenarios \<open>run\<close> and \<open>runWithWebWorkers\<close> only call each other:
  whatever room the stack has, the promise is rejected and nothing was reported.\<close>

lemma web_workers_overflow:
  assumes "useWebWorkers runner" and "5 < length (scenarios runner)"
  shows "run room build env runner onProgress = (Inl stackOverflow, [])"
    and "runWithWebWorkers room build env runner onProgress = (Inl stackOverflow, [])"
  using assms
  by (induction room build env runner onProgress and room build env runner onProgress
      rule: run_runWithWebWorkers.induct) simp_all

lemma sixScenarioRunner_web_workers:
  "useWebWorkers sixScenarioRunner" "length (scenarios sixScenarioRunner) = 6"
  by (simp_all add: sixScenarioRunner_def addScenario_def newEnhancedBatchRunner_def)

lemma run_sequential:
  assumes "\<not> (useWebWorkers runner \<and> 5 < length (scenarios runner))"
  shows "run (Suc room) build env runner onProgress = runSequential build env runner onProgress"
  using assms by (auto simp: Let_def)

text \<open>The loop.\<close>

lemma runLoop_results:
  "fst (runLoop build env inputs n onProgress k ss) =
     map (\<lambda>(s, i). runScenario build env inputs i s) (zip ss [k..<k + length ss])"
proof (induction ss arbitrary: k)
  case Nil
  then show ?case by simp
next
  case (Cons s ss)
  have "[k..<Suc (k + length ss)] = k # [Suc k..<Suc (k + length ss)]"
    by (rule upt_conv_Cons) simp
  then show ?case using Cons[of "Suc k"]
    by (simp add: Let_def split_beta del: upt_Suc)
qed

lemma runLoop_reports:
  "snd (runLoop build env inputs n True k ss) =
     map (\<lambda>i. real i / real n * 100) [Suc k..<Suc k + length ss]"
proof (induction ss arbitrary: k)
  case Nil
  then show ?case by simp
next
  case (Cons s ss)
  have "[Suc k..<Suc (Suc (k + length ss))] = Suc k # [Suc (Suc k)..<Suc (Suc (k + length ss))]"
    by (rule upt_conv_Cons) simp
  then show ?case using Cons[of "Suc k"]
    by (simp add: Let_def split_beta algebra_simps del: upt_Suc)
qed

lemma runLoop_no_reports:
  "snd (runLoop build env inputs n False k ss) = []"
  by (induction ss arbitrary: k) (simp_all add: Let_def split_beta)

lemma runScenario_fields:
  "scenarioId (runScenario build env inputs k s) = ScenarioDefinition.id s"
  "definition_s (runScenario build env inputs k s) = s"
  "varianceFromBaseline (runScenario build env inputs k s) = None"
  by (simp_all add: runScenario_def Let_def split: sum.splits)

lemma runLoop_length:
  "length (fst (runLoop build env inputs n onProgress k ss)) = length ss"
  by (simp add: runLoop_results)

lemma runLoop_projections:
  "map definition_s (fst (runLoop build env inputs n onProgress k ss)) = ss"
  "map scenarioId (fst (runLoop build env inputs n onProgress k ss)) = map ScenarioDefinition.id ss"
  "map varianceFromBaseline (fst (runLoop build env inputs n onProgress k ss)) = map (\<lambda>s. None) ss"
  by (induction ss arbitrary: k) (simp_all add: Let_def split_beta runScenario_fields)

text \<open>The variance from the baseline.\<close>

lemma find_filter:
  "List.find P xs = (case filter P xs of [] \<Rightarrow> None | x # _ \<Rightarrow> Some x)"
  by (induction xs) simp_all

lemma length_map_filter:
  "length (List.map_filter f xs) = length (filter (\<lambda>x. f x \<noteq> None) xs)"
  by (induction xs) (simp_all add: List.map_filter_simps split: option.splits)

lemma runLoop_pushed:
  assumes "r \<in> set (fst (runLoop build env inputs n onProgress k ss))"
  shows "scenarioId r = ScenarioDefinition.id (definition_s r)"
    and "varianceFromBaseline r = None"
    and "definition_s r \<in> set ss"
  using assms
  by (induction ss arbitrary: k) (auto simp: Let_def split_beta runScenario_fields)

text \<open>With one result flagged, and its scenario id on no other result, every other result
  gets its variance from it.\<close>

lemma calculateVariance_flagged:
  assumes one: "filter flaggedBaseline rs = [baseline]"
    and own: "\<And>r. r \<in> set rs \<Longrightarrow> scenarioId r = scenarioId baseline \<longleftrightarrow> flaggedBaseline r"
  shows "calculateVariance rs =
     map (\<lambda>x. if flaggedBaseline x then x
               else x\<lparr>varianceFromBaseline := Some (varianceFrom baseline x)\<rparr>) rs"
proof -
  have "List.find flaggedBaseline rs = Some baseline"
    by (simp add: find_filter one)
  then show ?thesis
    using own by (simp add: calculateVariance_def cong: map_cong)
qed

text \<open>
  The sequential pass of \<open>run\<close>, for a batch of any length in which one scenario is flagged
  as the baseline and no other scenario has the id of that one: there is one result for
  each scenario, in order; exactly \<open>N - 1\<close> of them carry a variance, the baseline carries
  none, and the variance of every other result is the difference, in double arithmetic, of
  its \<open>netMoic\<close>, \<open>netIrr\<close> and \<open>totalValue\<close> from those of the baseline.
\<close>

lemma sequential_pass_variance:
  assumes one: "filter flagged (scenarios runner) = [b]"
    and own: "filter (\<lambda>s. ScenarioDefinition.id s = ScenarioDefinition.id b) (scenarios runner) = [b]"
  shows "\<exists>rs baseline. fst (runSequential build env runner onProgress) = Inr rs
          \<and> map definition_s rs = scenarios runner
          \<and> length (varianceRecords rs) = length (scenarios runner) - 1
          \<and> baseline \<in> set rs \<and> definition_s baseline = b
          \<and> map varianceFromBaseline rs =
              map (\<lambda>x. if flaggedBaseline x then None
                        else Some \<lparr>VarianceFromBaseline.netMoic =
                                     numSub (ForecastResult.netMoic (result x))
                                            (ForecastResult.netMoic (result baseline)),
                                   VarianceFromBaseline.netIrr =
                                     numSub (ForecastResult.netIrr (result x))
                                            (ForecastResult.netIrr (result baseline)),
                                   VarianceFromBaseline.totalValue =
                                     numSub (ForecastResult.totalValue (result x))
                                            (ForecastResult.totalValue (result baseline))\<rparr>) rs"
proof -
  define rs0 where "rs0 = fst (runLoop build env (baseInputs runner) (length (scenarios runner))
                                 onProgress 0 (scenarios runner))"
  define upd where "upd baseline x = (if flaggedBaseline x then x
                      else x\<lparr>varianceFromBaseline := Some (varianceFrom baseline x)\<rparr>)"
    for baseline x
  have run: "fst (runSequential build env runner onProgress) = Inr (calculateVariance rs0)"
    by (simp add: runSequential_def rs0_def split_beta)
  have defs: "map definition_s rs0 = scenarios runner"
    by (simp add: rs0_def runLoop_projections)
  then have len: "length rs0 = length (scenarios runner)"
    by (metis length_map)
  have pushed: "scenarioId r = ScenarioDefinition.id (definition_s r)"
    "varianceFromBaseline r = None" "definition_s r \<in> set (scenarios runner)"
    if "r \<in> set rs0" for r
    using runLoop_pushed[OF that[unfolded rs0_def]] by simp_all
  have flag: "flaggedBaseline = flagged \<circ> definition_s"
    by (auto simp: flaggedBaseline_def flagged_def)
  have "map definition_s (filter flaggedBaseline rs0) = filter flagged (map definition_s rs0)"
    by (simp add: flag filter_map)
  with one have "map definition_s (filter flaggedBaseline rs0) = [b]" by (simp add: defs)
  then obtain baseline where baseline: "filter flaggedBaseline rs0 = [baseline]"
    and b: "definition_s baseline = b"
    by (auto simp: map_eq_Cons_conv)
  from baseline have "baseline \<in> set (filter flaggedBaseline rs0)" by simp
  then have b_in: "baseline \<in> set rs0" and b_flag: "flaggedBaseline baseline" by simp_all
  have b_id: "scenarioId baseline = ScenarioDefinition.id b"
    using pushed(1)[OF b_in] b by simp
  have "b \<in> set (filter flagged (scenarios runner))" by (simp add: one)
  then have b_flagged: "flagged b" by simp
  have own': "scenarioId r = scenarioId baseline \<longleftrightarrow> flaggedBaseline r" if "r \<in> set rs0" for r
  proof
    assume "scenarioId r = scenarioId baseline"
    then have "ScenarioDefinition.id (definition_s r) = ScenarioDefinition.id b"
      using pushed(1)[OF that] b_id by simp
    with pushed(3)[OF that]
    have "definition_s r \<in> set (filter (\<lambda>s. ScenarioDefinition.id s = ScenarioDefinition.id b)
                                   (scenarios runner))" by simp
    then have "definition_s r = b" by (simp add: own)
    with b_flagged show "flaggedBaseline r" by (simp add: flag)
  next
    assume "flaggedBaseline r"
    with that have "r \<in> set (filter flaggedBaseline rs0)" by simp
    then show "scenarioId r = scenarioId baseline" by (simp add: baseline)
  qed
  have cv: "calculateVariance rs0 = map (upd baseline) rs0"
    using calculateVariance_flagged[OF baseline own'] by (simp add: upd_def[abs_def])
  have kept: "definition_s (upd baseline x) = definition_s x"
    "result (upd baseline x) = result x"
    "flaggedBaseline (upd baseline x) = flaggedBaseline x" for x
    by (simp_all add: upd_def flaggedBaseline_def)
  have recorded: "varianceFromBaseline (upd baseline x) \<noteq> None \<longleftrightarrow> \<not> flaggedBaseline x"
    if "x \<in> set rs0" for x
    using pushed(2)[OF that] by (simp add: upd_def)
  have "length (varianceRecords (map (upd baseline) rs0))
        = length (filter (\<lambda>x. varianceFromBaseline (upd baseline x) \<noteq> None) rs0)"
    by (simp add: varianceRecords_def length_map_filter filter_map comp_def)
  also have "\<dots> = length (filter (\<lambda>x. \<not> flaggedBaseline x) rs0)"
    using recorded by (simp cong: filter_cong)
  also have "\<dots> = length rs0 - length (filter flaggedBaseline rs0)"
    using sum_length_filter_compl[of flaggedBaseline rs0] by simp
  finally have count: "length (varianceRecords (map (upd baseline) rs0))
                       = length (scenarios runner) - 1"
    by (simp add: len baseline)
  have b_kept: "baseline \<in> set (map (upd baseline) rs0)"
  proof -
    have "upd baseline baseline = baseline" using b_flag by (simp add: upd_def)
    with b_in show ?thesis by force
  qed
  have each: "varianceFromBaseline (upd baseline x) =
      (if flaggedBaseline (upd baseline x) then None
       else Some \<lparr>VarianceFromBaseline.netMoic =
                    numSub (ForecastResult.netMoic (result (upd baseline x)))
                           (ForecastResult.netMoic (result baseline)),
                  VarianceFromBaseline.netIrr =
                    numSub (ForecastResult.netIrr (result (upd baseline x)))
                           (ForecastResult.netIrr (result baseline)),
                  VarianceFromBaseline.totalValue =
                    numSub (ForecastResult.totalValue (result (upd baseline x)))
                           (ForecastResult.totalValue (result baseline))\<rparr>)"
    if "x \<in> set rs0" for x
    unfolding kept using pushed(2)[OF that] by (simp add: upd_def varianceFrom_def)
  have vmap: "map varianceFromBaseline (map (upd baseline) rs0) =
      map (\<lambda>x. if flaggedBaseline x then None
                else Some \<lparr>VarianceFromBaseline.netMoic =
                             numSub (ForecastResult.netMoic (result x))
                                    (ForecastResult.netMoic (result baseline)),
                           VarianceFromBaseline.netIrr =
                             numSub (ForecastResult.netIrr (result x))
                                    (ForecastResult.netIrr (result baseline)),
                           VarianceFromBaseline.totalValue =
                             numSub (ForecastResult.totalValue (result x))
                                    (ForecastResult.totalValue (result baseline))\<rparr>)
          (map (upd baseline) rs0)"
    using each by (simp add: comp_def cong: map_cong)
  have dmap: "map definition_s (map (upd baseline) rs0) = scenarios runner"
    using defs by (simp add: comp_def kept)
  show ?thesis
    using run cv dmap count b_kept b vmap
    by (intro exI[of _ "map (upd baseline) rs0"] exI[of _ baseline]) simp
qed

lemma twoScenarioRunner_scenarios:
  "scenarios twoScenarioRunner =
     [exampleScenario ''baseline'' (Some True) None, exampleScenario ''large'' None (Some 200000000)]"
  "useWebWorkers twoScenarioRunner"
  "baseInputs twoScenarioRunner = defaultInputs"
  by (simp_all add: twoScenarioRunner_def addScenario_def newEnhancedBatchRunner_def)

text \<open>A baseline and a fund of twice its size: \<open>run\<close> yields the one variance record.\<close>

lemma two_scenarios_one_variance:
  "map_option varianceRecords
     (resolved (run 1 sizeForecast exampleEnvironment twoScenarioRunner True))
   = Some [\<lparr>VarianceFromBaseline.netMoic = Finite 0, VarianceFromBaseline.netIrr = Finite 0,
            VarianceFromBaseline.totalValue = Finite 100000000\<rparr>]"
  using round64_near[of 26 "100000000" "-26" 6710886400000000]
  by (simp add: twoScenarioRunner_scenarios resolved_def runSequential_def Let_def
      calculateVariance_def flaggedBaseline_def runScenario_def varianceRecords_def
      List.map_filter_simps exampleScenario_def sizeForecast_def applyScenarioOverrides_def
      noOverrides_def varianceFrom_def createErrorResult_def numSub_def round64_zero
      defaultInputs_def getInputs_def getDefaultState_def)

text \<open>The difference is rounded: of the doubles 0.3 and -0.6 it is 0.8999999999999999, and
  not the double 0.9.\<close>

lemma variance_is_rounded:
  "numSub (lit 0.3) (numNeg (lit 0.6)) = Finite (8106479329266892 / 2 ^ 53)"
  "lit 0.9 = Finite (8106479329266893 / 2 ^ 53)"
  using lit_0_3 lit_0_6
    round64_tie[of "-1" "16212958658533785 / 18014398509481984" "-53" 8106479329266892]
    round64_near[of "-1" "9 / 10" "-53" 8106479329266893]
  by (simp_all add: numSub_def lit_def)

lemma twinRunner_scenarios:
  "scenarios twinRunner =
     [exampleScenario ''twin'' (Some True) None, exampleScenario ''twin'' None (Some 200000000)]"
  "useWebWorkers twinRunner"
  by (simp_all add: twinRunner_def addScenario_def newEnhancedBatchRunner_def)

text \<open>The baseline is excluded by a comparison of scenario ids: of two scenarios with one
  id, the first flagged as the baseline, the run yields no variance record.\<close>

lemma twin_ids_leave_no_variance:
  "length (scenarios twinRunner) = 2
   \<and> length (filter flagged (scenarios twinRunner)) = 1
   \<and> map_option varianceRecords (resolved (run 1 sizeForecast exampleEnvironment twinRunner False))
       = Some []"
proof -
  have "map_option varianceRecords (resolved (run 1 sizeForecast exampleEnvironment twinRunner False))
       = Some []"
    by (simp add: twinRunner_scenarios resolved_def runSequential_def Let_def
        calculateVariance_def flaggedBaseline_def runScenario_fields varianceRecords_def
        List.map_filter_simps exampleScenario_def)
  then show ?thesis
    by (simp add: twinRunner_scenarios exampleScenario_def flagged_def)
qed

lemma sixScenarioRunner_scenarios:
  "scenarios sixScenarioRunner =
     [exampleScenario ''a'' (Some True) None, exampleScenario ''b'' None (Some 200000000),
      exampleScenario ''c'' None (Some 300000000), exampleScenario ''d'' None (Some 400000000),
      exampleScenario ''e'' None (Some 500000000), exampleScenario ''f'' None (Some 600000000)]"
  by (simp add: sixScenarioRunner_def addScenario_def newEnhancedBatchRunner_def)

text \<open>
  Claim C5, at the input where the code departs from it. A batch of six scenarios with six
  ids, the first of them flagged as the baseline and no other: the claim has five variance
  records, and \<open>run\<close> yields none, whatever the forecasts do and whatever room the stack
  has, since its promise is rejected.
\<close>

theorem six_scenarios_yield_no_variance:
  "length (scenarios sixScenarioRunner) = 6
   \<and> filter flagged (scenarios sixScenarioRunner) = [exampleScenario ''a'' (Some True) None]
   \<and> distinct (map ScenarioDefinition.id (scenarios sixScenarioRunner))
   \<and> map_option varianceRecords (resolved (run room build env sixScenarioRunner onProgress))
       = None"
proof -
  have "resolved (run room build env sixScenarioRunner onProgress) = None"
    by (simp add: web_workers_overflow(1) sixScenarioRunner_web_workers resolved_def)
  then show ?thesis
    by (simp add: sixScenarioRunner_scenarios exampleScenario_def flagged_def)
qed

text \<open>The sequential pass, on the same batch, has the five records.\<close>

lemma six_scenarios_sequential_pass:
  "\<exists>rs. fst (runSequential build env sixScenarioRunner onProgress) = Inr rs
        \<and> length (varianceRecords rs) = 5"
proof -
  have "filter flagged (scenarios sixScenarioRunner) = [exampleScenario ''a'' (Some True) None]"
    "filter (\<lambda>s. ScenarioDefinition.id s
                   = ScenarioDefinition.id (exampleScenario ''a'' (Some True) None))
       (scenarios sixScenarioRunner) = [exampleScenario ''a'' (Some True) None]"
    by (simp_all add: sixScenarioRunner_scenarios exampleScenario_def flagged_def)
  from sequential_pass_variance[OF this, of build env onProgress]
  show ?thesis by (auto simp: sixScenarioRunner_scenarios)
qed

text \<open>
  Claim C4, at the input where the code departs from it. For a batch of six scenarios
  \<open>run\<close> resolves with no list of results, whatever the forecasts do and whatever room the
  stack has: the promise is rejected.
\<close>

theorem six_scenarios_return_no_results:
  "resolved (run room build env sixScenarioRunner onProgress) = None"
  by (simp add: web_workers_overflow(1) sixScenarioRunner_web_workers resolved_def)

text \<open>
  Claim C6, at the input where the code departs from it. For a batch of six scenarios
  \<open>onProgress\<close> is never called: no percentage is reported, and none is 100.
\<close>

theorem six_scenarios_report_no_progress:
  "snd (run room build env sixScenarioRunner True) = []"
  by (simp add: web_workers_overflow(1) sixScenarioRunner_web_workers)

text \<open>
  Claim C10, at the input where the code departs from it. For a batch of six scenarios
  \<open>runWithWebWorkers\<close> does not return what the sequential path returns: it is rejected,
  and the sequential path resolves with a list of results.
\<close>

theorem web_worker_path_is_not_the_sequential_path:
  "runWithWebWorkers room build env sixScenarioRunner onProgress
     \<noteq> runSequential build env sixScenarioRunner onProgress"
  by (simp add: web_workers_overflow(2) sixScenarioRunner_web_workers runSequential_def split_beta)

text \<open>For a batch that \<open>run\<close> takes down the sequential path, \<open>runWithWebWorkers\<close> does
  return what that path returns.\<close>

lemma web_worker_path_on_small_batches:
  assumes "\<not> (useWebWorkers runner \<and> 5 < length (scenarios runner))"
  shows "runWithWebWorkers (Suc (Suc room)) build env runner onProgress
           = runSequential build env runner onProgress"
  using run_sequential[OF assms] by simp

text \<open>On the sequential path the runner does what claims C4 and C6 say: a forecast that
  throws leaves the error result with the message as its warning at its place among
  \<open>N\<close> results, and the percentages reported are \<open>k / N * 100\<close> for \<open>k\<close> from 1 to
  \<open>N\<close>, increasing, with 100 the last.\<close>

lemma calculateVariance_keeps:
  "length (calculateVariance rs) = length rs"
  "map result (calculateVariance rs) = map result rs"
  "map ScenarioResult.warnings (calculateVariance rs) = map ScenarioResult.warnings rs"
  by (simp_all add: calculateVariance_def comp_def split: option.splits)

lemma sequential_run_isolates_a_failure:
  assumes path: "\<not> (useWebWorkers runner \<and> 5 < length (scenarios runner))"
    and k: "k < length (scenarios runner)"
    and thrown: "build (applyScenarioOverrides (baseInputs runner) (scenarios runner ! k)) = Inl err"
  shows "\<exists>rs. resolved (run (Suc room) build env runner onProgress) = Some rs
          \<and> length rs = length (scenarios runner)
          \<and> ScenarioResult.warnings (rs ! k) = [errorMessage err ''Calculation failed'']
          \<and> result (rs ! k) = createErrorResult env err"
proof -
  define rs0 where "rs0 = fst (runLoop build env (baseInputs runner) (length (scenarios runner))
                                 onProgress 0 (scenarios runner))"
  have run: "resolved (run (Suc room) build env runner onProgress) = Some (calculateVariance rs0)"
    unfolding run_sequential[OF path]
    by (simp add: resolved_def runSequential_def rs0_def split_beta)
  have len: "length rs0 = length (scenarios runner)"
    by (simp add: rs0_def runLoop_length)
  have "rs0 ! k = runScenario build env (baseInputs runner) k (scenarios runner ! k)"
    using k by (simp add: rs0_def runLoop_results)
  with thrown have at_k: "ScenarioResult.warnings (rs0 ! k) = [errorMessage err ''Calculation failed'']"
    "result (rs0 ! k) = createErrorResult env err"
    by (simp_all add: runScenario_def Let_def)
  have "ScenarioResult.warnings (calculateVariance rs0 ! k) = map ScenarioResult.warnings (calculateVariance rs0) ! k"
    "result (calculateVariance rs0 ! k) = map result (calculateVariance rs0) ! k"
    using k len by (simp_all add: calculateVariance_keeps(1))
  with at_k k len have "ScenarioResult.warnings (calculateVariance rs0 ! k) = [errorMessage err ''Calculation failed'']"
    "result (calculateVariance rs0 ! k) = createErrorResult env err"
    by (simp_all add: calculateVariance_keeps)
  with run len show ?thesis by (simp add: calculateVariance_keeps(1))
qed

lemma sequential_progress:
  assumes path: "\<not> (useWebWorkers runner \<and> 5 < length (scenarios runner))"
  shows "snd (run (Suc room) build env runner True) =
           map (\<lambda>i. real i / real (length (scenarios runner)) * 100)
               [1..<Suc (length (scenarios runner))]"
  unfolding run_sequential[OF path]
  by (simp add: runSequential_def split_beta runLoop_reports)

lemma sequential_progress_increases:
  assumes path: "\<not> (useWebWorkers runner \<and> 5 < length (scenarios runner))"
    and some: "scenarios runner \<noteq> []"
  shows "sorted_wrt (<) (snd (run (Suc room) build env runner True))"
    and "last (snd (run (Suc room) build env runner True)) = 100"
    and "length (snd (run (Suc room) build env runner True)) = length (scenarios runner)"
proof -
  let ?n = "length (scenarios runner)"
  from some have n: "0 < ?n" by simp
  have "sorted_wrt (<) [1..<Suc ?n]" by (rule sorted_wrt_upt)
  then show "sorted_wrt (<) (snd (run (Suc room) build env runner True))"
    unfolding sequential_progress[OF path] sorted_wrt_map
    by (rule sorted_wrt_mono_rel[rotated]) (use n in \<open>simp add: divide_strict_right_mono\<close>)
  have "[1..<Suc ?n] \<noteq> []" using some by (cases "scenarios runner") simp_all
  then show "last (snd (run (Suc room) build env runner True)) = 100"
    unfolding sequential_progress[OF path] using n by (simp add: last_map del: upt_Suc)
  show "length (snd (run (Suc room) build env runner True)) = length (scenarios runner)"
    unfolding sequential_progress[OF path] by (simp del: upt_Suc)
qed

section \<open>Properties of applyScenarioOverrides on the store\<close>






























































end
